theory Spec2Isabelle
  imports Main
begin

section \<open>Python values used by the sync engine\<close>

text \<open>
  The engine of \<^verbatim>\<open>zotion.py\<close> works on Python strings, lists and dictionaries. A Python
  string is modelled as a \<^typ>\<open>string\<close> whose characters are the code points below 256; a
  value that may be Python's \<^verbatim>\<open>None\<close> is an \<^typ>\<open>'a option\<close>. Exceptions are values:
  every function that can raise returns \<open>exn + 'a\<close>, with \<open>Inl\<close> for the exception.
\<close>

text \<open>
  What \<^verbatim>\<open>requests\<close> raises for a failed call (\<^verbatim>\<open>requests.exceptions.RequestException\<close>
  and its subclasses, \<^verbatim>\<open>HTTPError\<close> from \<^verbatim>\<open>raise_for_status\<close> among them): the text
  of \<^verbatim>\<open>str(e)\<close>, and \<^verbatim>\<open>e.response.text\<close> when the exception carries a response.
\<close>

record request_exception =
  message :: string
  response_text :: "string option"

datatype exn =
    ValueError
  | AttributeError
  | RequestException request_exception

text \<open>
  \<^verbatim>\<open>str.isspace\<close> on one character: the white space of the Latin-1 range
  (tab to carriage return, the separators 28 to 31, space, NEL and the no-break space).
\<close>

definition py_isspace :: "char \<Rightarrow> bool" where
  "py_isspace c = ((of_char c :: nat) \<in> set [9, 10, 11, 12, 13, 28, 29, 30, 31, 32, 133, 160])"

text \<open>\<^verbatim>\<open>s.strip()\<close>: white space removed at both ends.\<close>

definition py_strip :: "string \<Rightarrow> string" where
  "py_strip s = rev (dropWhile py_isspace (rev (dropWhile py_isspace s)))"

text \<open>\<^verbatim>\<open>s.split(sep)\<close> for a one-character separator: never an empty list.\<close>

fun py_split :: "char \<Rightarrow> string \<Rightarrow> string list" where
  "py_split sep [] = [[]]"
| "py_split sep (c # cs) =
     (if c = sep then [] # py_split sep cs
      else (case py_split sep cs of
              [] \<Rightarrow> [[c]]
            | w # ws \<Rightarrow> (c # w) # ws))"

text \<open>\<^verbatim>\<open>s.split(sep, maxsplit)\<close>: at most \<open>maxsplit\<close> cuts, from the left.\<close>

fun py_split_max :: "char \<Rightarrow> nat \<Rightarrow> string \<Rightarrow> string list" where
  "py_split_max sep 0 s = [s]"
| "py_split_max sep (Suc n) s =
     (if sep \<in> set s
      then takeWhile (\<lambda>c. c \<noteq> sep) s # py_split_max sep n (tl (dropWhile (\<lambda>c. c \<noteq> sep) s))
      else [s])"

text \<open>\<^verbatim>\<open>s.startswith(p)\<close> and \<^verbatim>\<open>sep.join(xs)\<close>.\<close>

definition py_startswith :: "string \<Rightarrow> string \<Rightarrow> bool" where
  "py_startswith s p = (take (length p) s = p)"

fun py_join :: "string \<Rightarrow> string list \<Rightarrow> string" where
  "py_join sep [] = []"
| "py_join sep [x] = x"
| "py_join sep (x # y # ys) = x @ sep @ py_join sep (y # ys)"

text \<open>\<^verbatim>\<open>str(n)\<close> for a non-negative integer, and \<^verbatim>\<open>s.zfill(w)\<close>-style padding.\<close>

definition digit_char :: "nat \<Rightarrow> char" where
  "digit_char n = ''0123456789'' ! (n mod 10)"

function str_nat :: "nat \<Rightarrow> string" where
  "str_nat n = (if n < 10 then [digit_char n] else str_nat (n div 10) @ [digit_char n])"
  by pat_completeness auto
termination
  by (relation "measure id") auto

declare str_nat.simps [simp del]

definition zero_pad :: "nat \<Rightarrow> string \<Rightarrow> string" where
  "zero_pad w s = replicate (w - length s) CHR ''0'' @ s"

definition is_digit :: "char \<Rightarrow> bool" where
  "is_digit c = (c \<in> set ''0123456789'')"

section \<open>The library call \<^verbatim>\<open>datetime.strptime\<close>\<close>

text \<open>
  \<^verbatim>\<open>format_date\<close> calls \<^verbatim>\<open>datetime.strptime(date_str, fmt)\<close> of the Python standard
  library. The library compiles the format to a regular expression, one named group per
  directive, matches it at the start of the string with the backtracking matcher of
  \<^verbatim>\<open>re\<close> (alternatives in the order written), raises \<^verbatim>\<open>ValueError\<close> when nothing
  matches or when text is left over behind the match, converts the groups with \<^verbatim>\<open>int\<close>,
  and builds the date, which raises \<^verbatim>\<open>ValueError\<close> for a year, month or day out of
  range. The regular expressions of the three directives used here are
  \<^verbatim>\<open>%Y = \d\d\d\d\<close>, \<^verbatim>\<open>%m = 1[0-2]|0[1-9]|[1-9]\<close> and
  \<^verbatim>\<open>%d = 3[0-1]|[1-2]\d|0[1-9]|[1-9]| [1-9]\<close>.
\<close>

datatype regex = Cls string | Eps | Cat regex regex | Alt regex regex | Grp char regex

text \<open>
  All the ways the expression matches a prefix of the string, in the order the
  backtracking matcher tries them: the captured groups and the text left over.
\<close>

fun rmatch :: "regex \<Rightarrow> string \<Rightarrow> ((char \<times> string) list \<times> string) list" where
  "rmatch (Cls cs) s = (case s of [] \<Rightarrow> [] | c # r \<Rightarrow> if c \<in> set cs then [([], r)] else [])"
| "rmatch Eps s = [([], s)]"
| "rmatch (Cat a b) s =
     concat (map (\<lambda>(g1, r1). map (\<lambda>(g2, r2). (g1 @ g2, r2)) (rmatch b r1)) (rmatch a s))"
| "rmatch (Alt a b) s = rmatch a s @ rmatch b s"
| "rmatch (Grp n a) s =
     map (\<lambda>(g, r). (g @ [(n, take (length s - length r) s)], r)) (rmatch a s)"

definition re_digit :: regex where
  "re_digit = Cls ''0123456789''"

definition re_nonzero :: regex where
  "re_nonzero = Cls ''123456789''"

text \<open>The expression of one directive; a directive the model does not know matches nothing.\<close>

definition directive :: "char \<Rightarrow> regex" where
  "directive c =
     (if c = CHR ''Y'' then Grp c (Cat re_digit (Cat re_digit (Cat re_digit re_digit)))
      else if c = CHR ''m'' then
        Grp c (Alt (Cat (Cls ''1'') (Cls ''012''))
              (Alt (Cat (Cls ''0'') re_nonzero) re_nonzero))
      else if c = CHR ''d'' then
        Grp c (Alt (Cat (Cls ''3'') (Cls ''01''))
              (Alt (Cat (Cls ''12'') re_digit)
              (Alt (Cat (Cls ''0'') re_nonzero)
              (Alt re_nonzero (Cat (Cls '' '') re_nonzero)))))
      else Cls [])"

fun pattern :: "string \<Rightarrow> regex" where
  "pattern [] = Eps"
| "pattern [c] = Cat (Cls [c]) Eps"
| "pattern (c # d # r) =
     (if c = CHR ''%'' then Cat (directive d) (pattern r) else Cat (Cls [c]) (pattern (d # r)))"

text \<open>\<^verbatim>\<open>int(s)\<close> on a captured group: optional surrounding white space, then digits.\<close>

definition digit_val :: "char \<Rightarrow> nat" where
  "digit_val c = (of_char c :: nat) - 48"

definition py_int :: "string \<Rightarrow> nat option" where
  "py_int s =
     (let t = py_strip s in
      if t \<noteq> [] \<and> list_all is_digit t
      then Some (foldl (\<lambda>acc c. 10 * acc + digit_val c) 0 t) else None)"

record datetime =
  year :: nat
  month :: nat
  day :: nat

definition is_leap :: "nat \<Rightarrow> bool" where
  "is_leap y = (y mod 4 = 0 \<and> (y mod 100 \<noteq> 0 \<or> y mod 400 = 0))"

definition days_in_month :: "nat \<Rightarrow> nat \<Rightarrow> nat" where
  "days_in_month y m =
     (if m = 2 then (if is_leap y then 29 else 28)
      else if m \<in> set [4, 6, 9, 11] then 30 else 31)"

text \<open>The constructor of a date: \<^verbatim>\<open>ValueError\<close> outside the calendar (years 1 to 9999).\<close>

definition make_date :: "nat \<Rightarrow> nat \<Rightarrow> nat \<Rightarrow> exn + datetime" where
  "make_date y m d =
     (if 1 \<le> y \<and> y \<le> 9999 \<and> 1 \<le> m \<and> m \<le> 12 \<and> 1 \<le> d \<and> d \<le> days_in_month y m
      then Inr \<lparr>year = y, month = m, day = d\<rparr> else Inl ValueError)"

text \<open>A group that the format does not have keeps the default 1 (month and day).\<close>

definition group_int :: "(char \<times> string) list \<Rightarrow> char \<Rightarrow> exn + nat" where
  "group_int groups c =
     (case map_of groups c of
        None \<Rightarrow> Inr 1
      | Some txt \<Rightarrow> (case py_int txt of None \<Rightarrow> Inl ValueError | Some n \<Rightarrow> Inr n))"

definition strptime :: "string \<Rightarrow> string \<Rightarrow> exn + datetime" where
  "strptime data_string fmt =
     (case rmatch (pattern fmt) data_string of
        [] \<Rightarrow> Inl ValueError
      | (groups, rest) # _ \<Rightarrow>
          if rest \<noteq> [] then Inl ValueError
          else (case group_int groups CHR ''Y'' of
                  Inl e \<Rightarrow> Inl e
                | Inr y \<Rightarrow> (case group_int groups CHR ''m'' of
                    Inl e \<Rightarrow> Inl e
                  | Inr m \<Rightarrow> (case group_int groups CHR ''d'' of
                      Inl e \<Rightarrow> Inl e
                    | Inr d \<Rightarrow> make_date y m d))))"

text \<open>
  \<^verbatim>\<open>dt.strftime("%Y-%m-%d")\<close> hands the format to the \<^verbatim>\<open>strftime\<close> of the C
  library. On Linux (glibc) \<^verbatim>\<open>%Y\<close> prints the year as a plain decimal number, with no
  leading zeros, so a year below 1000 has fewer than four digits; \<^verbatim>\<open>%m\<close> and \<^verbatim>\<open>%d\<close>
  print two digits.
\<close>

definition strftime :: "datetime \<Rightarrow> string" where
  "strftime dt =
     str_nat (year dt) @ ''-'' @ zero_pad 2 (str_nat (month dt)) @ ''-''
       @ zero_pad 2 (str_nat (day dt))"

section \<open>The date normalizer \<^verbatim>\<open>format_date\<close>\<close>

definition date_formats :: "string list" where
  "date_formats = [''%Y-%m-%d'', ''%Y-%m'', ''%m/%Y'', ''%Y'']"

text \<open>
  The loop over the formats: the first format that parses returns; \<^verbatim>\<open>ValueError\<close> is
  caught and the next format is tried; any other exception leaves the function.
\<close>

fun try_formats :: "string \<Rightarrow> string list \<Rightarrow> exn + string option" where
  "try_formats date_str [] = Inr None"
| "try_formats date_str (fmt # fmts) =
     (case strptime date_str fmt of
        Inr dt \<Rightarrow> Inr (Some (strftime dt))
      | Inl e \<Rightarrow> (case e of ValueError \<Rightarrow> try_formats date_str fmts | _ \<Rightarrow> Inl e))"

definition format_date :: "string option \<Rightarrow> exn + string option" where
  "format_date date_str =
     (case date_str of
        None \<Rightarrow> Inr None
      | Some s \<Rightarrow> if s = [] then Inr None else try_formats s date_formats)"

section \<open>The CSV record parser \<^verbatim>\<open>parse_zotero_csv\<close>\<close>

text \<open>
  A row as \<^verbatim>\<open>csv.DictReader\<close> yields it: a dictionary from the column names of the header
  to the fields of the row. A row with fewer fields than the header has the missing
  columns present with the value \<^verbatim>\<open>None\<close>, so a value is a \<^typ>\<open>string option\<close>.
\<close>

type_synonym row = "string \<rightharpoonup> string option"

text \<open>\<^verbatim>\<open>row.get(key, default)\<close>, and the truth value of a string or \<^verbatim>\<open>None\<close>.\<close>

definition row_get :: "row \<Rightarrow> string \<Rightarrow> string option \<Rightarrow> string option" where
  "row_get row key dflt = (case row key of None \<Rightarrow> dflt | Some v \<Rightarrow> v)"

definition truthy :: "string option \<Rightarrow> bool" where
  "truthy v = (case v of None \<Rightarrow> False | Some s \<Rightarrow> s \<noteq> [])"

record item =
  title :: string
  authors :: "string list"
  date :: "string option"
  doi :: "string option"

text \<open>
  \<^verbatim>\<open>last, first = [...]\<close>: unpacking a list into two names raises
  \<^verbatim>\<open>ValueError\<close> unless the list has exactly two elements.
\<close>

definition unpack2 :: "'a list \<Rightarrow> exn + 'a \<times> 'a" where
  "unpack2 xs = (case xs of [a, b] \<Rightarrow> Inr (a, b) | _ \<Rightarrow> Inl ValueError)"

text \<open>
  The body of the loop over \<^verbatim>\<open>authors_raw\<close>: the entry is stripped first; with a comma
  it is cut at the first comma and reordered, and the \<^verbatim>\<open>except ValueError\<close> branch
  appends the stripped entry as it is; without a comma it is appended unless empty.
\<close>

definition parse_author :: "string list \<Rightarrow> string \<Rightarrow> string list" where
  "parse_author found raw =
     (let author = py_strip raw in
      if CHR '','' \<in> set author then
        (case unpack2 (map py_strip (py_split_max CHR '','' 1 author)) of
           Inr (last_name, first_name) \<Rightarrow> found @ [first_name @ '' '' @ last_name]
         | Inl e \<Rightarrow> found @ [author])
      else if author \<noteq> [] then found @ [author]
      else found)"

text \<open>
  One row: \<open>Inr None\<close> when the row is dropped. \<^verbatim>\<open>row.get('Author', '')\<close> is
  \<^verbatim>\<open>None\<close> for a row cut short before the author column, and \<^verbatim>\<open>None.split\<close> raises
  \<^verbatim>\<open>AttributeError\<close>. The title is read a second time with a default that cannot apply,
  the key being present; the model binds it once.
\<close>

definition parse_row :: "row \<Rightarrow> exn + item option" where
  "parse_row row =
     (case row_get row ''Title'' None of
        None \<Rightarrow> Inr None
      | Some t \<Rightarrow>
          if t = [] then Inr None
          else (case row_get row ''Author'' (Some []) of
                  None \<Rightarrow> Inl AttributeError
                | Some a \<Rightarrow>
                    Inr (Some \<lparr>title = t,
                               authors = foldl parse_author [] (py_split CHR '';'' a),
                               date = row_get row ''Date'' (Some []),
                               doi = row_get row ''DOI'' (Some [])\<rparr>)))"

fun parse_rows :: "row list \<Rightarrow> item list \<Rightarrow> exn + item list" where
  "parse_rows [] items = Inr items"
| "parse_rows (row # rows) items =
     (case parse_row row of
        Inl e \<Rightarrow> Inl e
      | Inr None \<Rightarrow> parse_rows rows items
      | Inr (Some it) \<Rightarrow> parse_rows rows (items @ [it]))"

text \<open>
  The parser, on the rows that the reader yields from the file, with the two lines it
  logs. Opening and decoding the file is the library's part and is not modelled.
\<close>

definition parse_zotero_csv :: "string \<Rightarrow> row list \<Rightarrow> (exn + item list) \<times> string list" where
  "parse_zotero_csv path reader =
     (let log1 = [''Reading Zotero data from: '' @ path] in
      case parse_rows reader [] of
        Inl e \<Rightarrow> (Inl e, log1)
      | Inr items \<Rightarrow>
          (Inr items, log1 @ [''Parsed '' @ str_nat (length items) @ '' items from CSV.'']))"

section \<open>The remote table\<close>

text \<open>
  A record of the remote table as the title index reads it: for each property name, the
  \<^verbatim>\<open>content\<close> of each text segment of its \<^verbatim>\<open>title\<close> list (the empty list when the
  property has no \<^verbatim>\<open>title\<close>), a segment without content being \<^verbatim>\<open>None\<close>.
\<close>

type_synonym page = "string \<rightharpoonup> string option list"

record query_data =
  results :: "page list"
  has_more :: bool
  next_cursor :: "string option"

datatype prop_value =
    Title_Value string
  | Rich_Text_Value string
  | Date_Value string
  | Url_Value string

text \<open>The \<^verbatim>\<open>properties\<close> dictionary of a creation request, in insertion order.\<close>

type_synonym properties = "(string \<times> prop_value) list"

text \<open>
  The three calls of the engine, each with the token of its \<^verbatim>\<open>Authorization\<close> header and
  the database identifier of its URL or body.
\<close>

datatype request =
    Query_Database string string "string option"
  | Retrieve_Database string string
  | Create_Page string string properties

text \<open>
  The remote service answers each call with the parsed body or with the exception that
  \<^verbatim>\<open>requests\<close> raises. An answer may depend on how many calls came before, so that a
  failure can be transient.
\<close>

record remote =
  query_response :: "nat \<Rightarrow> string option \<Rightarrow> request_exception + query_data"
  schema_response :: "nat \<Rightarrow> request_exception + (string \<rightharpoonup> string)"
  create_response :: "nat \<Rightarrow> properties \<Rightarrow> request_exception + unit"

text \<open>What a run leaves behind: the lines given to the logger, and the calls sent, each
  with whether it succeeded.\<close>

record run =
  log :: "string list"
  sent :: "(request \<times> bool) list"

definition logger :: "string \<Rightarrow> run \<Rightarrow> run" where
  "logger line st = st\<lparr>log := log st @ [line]\<rparr>"

definition record_call :: "request \<Rightarrow> bool \<Rightarrow> run \<Rightarrow> run" where
  "record_call req ok st = st\<lparr>sent := sent st @ [(req, ok)]\<rparr>"

section \<open>The remote title index \<^verbatim>\<open>get_existing_notion_titles\<close>\<close>

text \<open>The loop over the candidate keys of one record, left at the first key with a segment.\<close>

fun first_title :: "page \<Rightarrow> string list \<Rightarrow> string option option" where
  "first_title props [] = None"
| "first_title props (key # keys) =
     (case props key of
        None \<Rightarrow> first_title props keys
      | Some title_prop \<Rightarrow>
          (case title_prop of
             [] \<Rightarrow> first_title props keys
           | seg # _ \<Rightarrow> Some seg))"

definition add_page :: "string option set \<Rightarrow> page \<Rightarrow> string option set" where
  "add_page existing_titles props =
     (case first_title props [''Title'', ''Name'', ''title''] of
        None \<Rightarrow> existing_titles
      | Some content \<Rightarrow> insert content existing_titles)"

text \<open>\<^verbatim>\<open>if next_cursor:\<close> a cursor is sent only when it is a non-empty string.\<close>

definition start_cursor :: "string option \<Rightarrow> string option" where
  "start_cursor c = (if truthy c then c else None)"

text \<open>
  The \<^verbatim>\<open>while has_more\<close> loop, entered at the fetch of a page. The service decides
  whether it ends, so the loop is a partial function: \<open>None\<close> is a run that never returns.
\<close>

partial_function (option) fetch_pages ::
  "remote \<Rightarrow> string \<Rightarrow> string \<Rightarrow> string option \<Rightarrow> string option set \<Rightarrow> run
     \<Rightarrow> ((exn + string option set) \<times> run) option" where
  "fetch_pages srv notion_token notion_db_id cursor existing_titles st =
     (case query_response srv (length (sent st)) (start_cursor cursor) of
        Inl e \<Rightarrow>
          Some (Inl (RequestException e),
                logger (''Failed to fetch existing pages from Notion: '' @ message e)
                  (record_call (Query_Database notion_token notion_db_id (start_cursor cursor))
                     False st))
      | Inr data \<Rightarrow>
          if has_more data
          then fetch_pages srv notion_token notion_db_id (next_cursor data)
                 (foldl add_page existing_titles (results data))
                 (record_call (Query_Database notion_token notion_db_id (start_cursor cursor))
                    True st)
          else Some (Inr (foldl add_page existing_titles (results data)),
                     record_call (Query_Database notion_token notion_db_id (start_cursor cursor))
                       True st))"

definition get_existing_notion_titles ::
  "remote \<Rightarrow> string \<Rightarrow> string \<Rightarrow> run \<Rightarrow> ((exn + string option set) \<times> run) option" where
  "get_existing_notion_titles srv notion_token notion_db_id st =
     (case fetch_pages srv notion_token notion_db_id None {} st of
        None \<Rightarrow> None
      | Some (Inl e, st') \<Rightarrow> Some (Inl e, st')
      | Some (Inr existing_titles, st') \<Rightarrow>
          Some (Inr existing_titles,
                logger (''Found '' @ str_nat (card existing_titles) @ '' existing titles in Notion.'')
                  st'))"

section \<open>The schema inspector \<^verbatim>\<open>get_database_properties\<close>\<close>

definition get_database_properties ::
  "remote \<Rightarrow> string \<Rightarrow> string \<Rightarrow> run \<Rightarrow> (exn + (string \<rightharpoonup> string)) \<times> run" where
  "get_database_properties srv notion_token notion_db_id st =
     (case schema_response srv (length (sent st)) of
        Inl e \<Rightarrow>
          (Inl (RequestException e),
           logger (''Could not fetch database schema: '' @ message e)
             (record_call (Retrieve_Database notion_token notion_db_id) False st))
      | Inr prop_types \<Rightarrow>
          (Inr prop_types, record_call (Retrieve_Database notion_token notion_db_id) True st))"

section \<open>The sync orchestrator \<^verbatim>\<open>push_to_notion\<close>\<close>

text \<open>\<^verbatim>\<open>prop_types.get("DOI", "rich_text")\<close>.\<close>

definition doi_type_of :: "(string \<rightharpoonup> string) \<Rightarrow> string" where
  "doi_type_of prop_types = (case prop_types ''DOI'' of None \<Rightarrow> ''rich_text'' | Some t \<Rightarrow> t)"

text \<open>\<^verbatim>\<open>item["doi"].strip() if item["doi"] else None\<close>.\<close>

definition doi_value_of :: "item \<Rightarrow> string option" where
  "doi_value_of it = (if truthy (doi it) then map_option py_strip (doi it) else None)"

text \<open>
  The properties of the creation request of one item, given the result of
  \<^verbatim>\<open>format_date\<close> on its date: title and authors always, the date and the DOI only when
  their value is a non-empty string.
\<close>

definition build_properties :: "string \<Rightarrow> item \<Rightarrow> string option \<Rightarrow> properties" where
  "build_properties doi_type it date_iso =
     [(''Title'', Title_Value (title it)),
      (''Authors'', Rich_Text_Value
         (if authors it \<noteq> [] then py_join '', '' (authors it) else ''Unknown''))]
     @ (case date_iso of
          None \<Rightarrow> []
        | Some d \<Rightarrow> if d = [] then [] else [(''Date'', Date_Value d)])
     @ (case doi_value_of it of
          None \<Rightarrow> []
        | Some doi_value \<Rightarrow>
            if doi_value = [] then []
            else (let doi_url = (if py_startswith doi_value ''http'' then doi_value
                                 else ''https://doi.org/'' @ doi_value)
                  in if doi_type = ''url'' then [(''DOI'', Url_Value doi_url)]
                     else [(''DOI'', Rich_Text_Value doi_url)]))"

text \<open>
  The loop over the items, with the two counters. A \<^verbatim>\<open>RequestException\<close> of the creation
  call is caught, logged, and the loop goes on; an exception of \<^verbatim>\<open>format_date\<close> would
  leave the loop.
\<close>

fun push_items ::
  "remote \<Rightarrow> string \<Rightarrow> string \<Rightarrow> string option set \<Rightarrow> string \<Rightarrow> item list \<Rightarrow> nat \<times> nat \<Rightarrow> run
     \<Rightarrow> (exn + nat \<times> nat) \<times> run" where
  "push_items srv notion_token notion_db_id existing_titles doi_type [] counts st =
     (Inr counts, st)"
| "push_items srv notion_token notion_db_id existing_titles doi_type (it # items) counts st =
     (case counts of (pushed, skipped) \<Rightarrow>
      if Some (title it) \<in> existing_titles
      then push_items srv notion_token notion_db_id existing_titles doi_type items
             (pushed, skipped + 1) (logger (''Skipping existing item: '' @ title it) st)
      else (case format_date (date it) of
              Inl e \<Rightarrow> (Inl e, st)
            | Inr date_iso \<Rightarrow>
                (case create_response srv (length (sent st))
                        (build_properties doi_type it date_iso) of
                   Inr ok \<Rightarrow>
                     push_items srv notion_token notion_db_id existing_titles doi_type items
                       (pushed + 1, skipped)
                       (logger (''Pushed: '' @ title it)
                          (record_call
                             (Create_Page notion_token notion_db_id
                                (build_properties doi_type it date_iso)) True st))
                 | Inl e \<Rightarrow>
                     push_items srv notion_token notion_db_id existing_titles doi_type items
                       (pushed, skipped)
                       ((case response_text e of
                           None \<Rightarrow> (\<lambda>s. s)
                         | Some txt \<Rightarrow> logger (''   Reason: '' @ txt))
                          (logger (''Failed to push '' @ [CHR 39] @ title it @ [CHR 39]
                                     @ '': '' @ message e)
                             (record_call
                                (Create_Page notion_token notion_db_id
                                   (build_properties doi_type it date_iso)) False st))))))"

text \<open>
  The whole operation. The function has no \<^verbatim>\<open>return\<close> statement: when the loop is over
  it logs the two counters and its value is \<^verbatim>\<open>None\<close>. The type of the value leaves room
  for a pair of counters, which the code never gives.
\<close>

definition push_to_notion ::
  "remote \<Rightarrow> item list \<Rightarrow> string \<Rightarrow> string \<Rightarrow> run \<Rightarrow> ((exn + (nat \<times> nat) option) \<times> run) option" where
  "push_to_notion srv items_to_push notion_token notion_db_id st =
     (case get_existing_notion_titles srv notion_token notion_db_id st of
        None \<Rightarrow> None
      | Some (Inl e, st1) \<Rightarrow> Some (Inl e, st1)
      | Some (Inr existing_titles, st1) \<Rightarrow>
          (case get_database_properties srv notion_token notion_db_id st1 of
             (Inl e, st2) \<Rightarrow> Some (Inl e, st2)
           | (Inr prop_types, st2) \<Rightarrow>
               (case push_items srv notion_token notion_db_id existing_titles
                       (doi_type_of prop_types) items_to_push (0, 0)
                       (logger (''DOI property type: '' @ doi_type_of prop_types) st2) of
                  (Inl e, st3) \<Rightarrow> Some (Inl e, st3)
                | (Inr (pushed, skipped), st3) \<Rightarrow>
                    Some (Inr None,
                          logger (''Finished. pushed='' @ str_nat pushed @ '', skipped=''
                                    @ str_nat skipped) st3))))"

declare fetch_pages.simps [code]

section \<open>Notions used to state the properties\<close>

text \<open>The shape \<^verbatim>\<open>YYYY-MM-DD\<close>: ten characters, digits around two hyphens.\<close>

definition is_iso_date :: "string \<Rightarrow> bool" where
  "is_iso_date r =
     (length r = 10 \<and> list_all is_digit (take 4 r) \<and> r ! 4 = CHR ''-''
      \<and> list_all is_digit (take 2 (drop 5 r)) \<and> r ! 7 = CHR ''-''
      \<and> list_all is_digit (drop 8 r))"

text \<open>The names of the groups that a regular expression can capture.\<close>

fun group_names :: "regex \<Rightarrow> char set" where
  "group_names (Cls cs) = {}"
| "group_names Eps = {}"
| "group_names (Cat a b) = group_names a \<union> group_names b"
| "group_names (Alt a b) = group_names a \<union> group_names b"
| "group_names (Grp n a) = insert n (group_names a)"

definition has_title :: "row \<Rightarrow> bool" where
  "has_title row = truthy (row_get row ''Title'' None)"

definition row_title :: "row \<Rightarrow> string" where
  "row_title row = (case row_get row ''Title'' None of None \<Rightarrow> [] | Some t \<Rightarrow> t)"

definition entry_name :: "string \<Rightarrow> string list" where
  "entry_name raw =
     (let e = py_strip raw in
      if CHR '','' \<in> set e
      then [py_strip (tl (dropWhile (\<lambda>c. c \<noteq> CHR '','') e)) @ '' ''
              @ py_strip (takeWhile (\<lambda>c. c \<noteq> CHR '','') e)]
      else if e \<noteq> [] then [e] else [])"

definition authors_of_field :: "string \<Rightarrow> string list" where
  "authors_of_field a = concat (map entry_name (py_split CHR '';'' a))"

text \<open>The result of \<^verbatim>\<open>format_date\<close> on the date of an item, and the properties sent for it.\<close>

definition date_iso_of :: "item \<Rightarrow> string option" where
  "date_iso_of it = (case format_date (date it) of Inl e \<Rightarrow> None | Inr d \<Rightarrow> d)"

definition page_properties :: "string \<Rightarrow> item \<Rightarrow> properties" where
  "page_properties doi_type it = build_properties doi_type it (date_iso_of it)"

text \<open>
  The answers of the service to the creation calls of a list of items, the first call
  being call number \<open>n\<close> of the run.
\<close>

definition answers :: "remote \<Rightarrow> string \<Rightarrow> nat \<Rightarrow> item list \<Rightarrow> (request_exception + unit) list" where
  "answers srv doi_type n its =
     map (\<lambda>(k, it). create_response srv k (page_properties doi_type it)) (List.enumerate n its)"

text \<open>The lines logged when the creation call of an item fails.\<close>

definition failure_lines :: "item \<Rightarrow> request_exception \<Rightarrow> string list" where
  "failure_lines it e =
     [''Failed to push '' @ [CHR 39] @ title it @ [CHR 39] @ '': '' @ message e]
     @ (case response_text e of None \<Rightarrow> [] | Some txt \<Rightarrow> [''   Reason: '' @ txt])"

definition outcome_lines :: "item \<Rightarrow> request_exception + unit \<Rightarrow> string list" where
  "outcome_lines it a =
     (case a of Inl e \<Rightarrow> failure_lines it e | Inr ok \<Rightarrow> [''Pushed: '' @ title it])"

fun is_create :: "request \<times> bool \<Rightarrow> bool" where
  "is_create (Create_Page tok db props, ok) = True"
| "is_create (req, ok) = False"

definition finished_line :: "nat \<Rightarrow> nat \<Rightarrow> string" where
  "finished_line pushed skipped =
     ''Finished. pushed='' @ str_nat pushed @ '', skipped='' @ str_nat skipped"

definition init_run :: run where
  "init_run = \<lparr>log = [], sent = []\<rparr>"

text \<open>The items that the loop submits, and those it skips, for a given title index.\<close>

definition new_items :: "string option set \<Rightarrow> item list \<Rightarrow> item list" where
  "new_items existing_titles its = filter (\<lambda>it. Some (title it) \<notin> existing_titles) its"

definition duplicates :: "string option set \<Rightarrow> item list \<Rightarrow> item list" where
  "duplicates existing_titles its = filter (\<lambda>it. Some (title it) \<in> existing_titles) its"

text \<open>The calls that a run added to those of an earlier state.\<close>

definition calls_since :: "run \<Rightarrow> run \<Rightarrow> (request \<times> bool) list" where
  "calls_since st0 st = drop (length (sent st0)) (sent st)"

text \<open>The stripped DOI of an item (empty when there is none), its URL, and its encoding.\<close>

definition stripped_doi :: "item \<Rightarrow> string" where
  "stripped_doi it = (case doi it of None \<Rightarrow> [] | Some d \<Rightarrow> py_strip d)"

definition doi_url_of :: "string \<Rightarrow> string" where
  "doi_url_of v = (if py_startswith v ''http'' then v else ''https://doi.org/'' @ v)"

definition encode_doi :: "string \<Rightarrow> string \<Rightarrow> prop_value" where
  "encode_doi doi_type url = (if doi_type = ''url'' then Url_Value url else Rich_Text_Value url)"

text \<open>Remote services and items for the examples.\<close>

definition paper :: "string \<Rightarrow> item" where
  "paper t = \<lparr>title = t, authors = [], date = Some [], doi = Some []\<rparr>"

definition demo_remote :: remote where
  "demo_remote =
     \<lparr>query_response = (\<lambda>n c. Inr \<lparr>results = [[''Title'' \<mapsto> [Some ''Paper A'']]],
                                    has_more = False, next_cursor = None\<rparr>),
      schema_response = (\<lambda>n. Inr [''DOI'' \<mapsto> ''url'']),
      create_response = (\<lambda>n props. Inr ())\<rparr>"

definition flaky_remote :: remote where
  "flaky_remote =
     demo_remote\<lparr>create_response :=
       (\<lambda>n props. if n = 2 then Inl \<lparr>message = ''503 Server Error'',
                                     response_text = Some ''unavailable''\<rparr>
                   else Inr ())\<rparr>"

definition broken_pages_remote :: remote where
  "broken_pages_remote =
     demo_remote\<lparr>query_response :=
       (\<lambda>n c. if c = None
               then Inr \<lparr>results = [[''Name'' \<mapsto> [Some ''Paper B'']]],
                         has_more = True, next_cursor = Some ''c2''\<rparr>
               else Inl \<lparr>message = ''Read timed out'', response_text = None\<rparr>)\<rparr>"

definition no_schema_remote :: remote where
  "no_schema_remote =
     demo_remote\<lparr>schema_response :=
       (\<lambda>n. Inl \<lparr>message = ''404 Client Error'', response_text = Some ''not found''\<rparr>)\<rparr>"

text \<open>The DOI property that a call carries, when it is a creation call that has one.\<close>

fun request_doi :: "request \<Rightarrow> prop_value option" where
  "request_doi (Create_Page tok db props) = map_of props ''DOI''"
| "request_doi req = None"

section \<open>The date normalizer: properties\<close>

lemma group_int_error: "group_int g c = Inl e \<Longrightarrow> e = ValueError"
  by (auto simp: group_int_def split: option.splits)

lemma make_date_error: "make_date y m d = Inl e \<Longrightarrow> e = ValueError"
  by (auto simp: make_date_def split: if_splits)

lemma strptime_error: "strptime s f = Inl e \<Longrightarrow> e = ValueError"
  by (auto simp: strptime_def split: list.splits if_splits sum.splits
      dest: group_int_error make_date_error)

lemma try_formats_first:
  "try_formats s fs =
     Inr (case find (\<lambda>f. \<not> isl (strptime s f)) fs of
            None \<Rightarrow> None
          | Some f \<Rightarrow> Some (strftime (projr (strptime s f))))"
proof (induction fs)
  case Nil
  show ?case by simp
next
  case (Cons f fs)
  show ?case
  proof (cases "strptime s f")
    case (Inl e)
    then have "e = ValueError" by (rule strptime_error)
    with Inl Cons show ?thesis by simp
  next
    case (Inr dt)
    then show ?thesis by simp
  qed
qed

lemma days_in_month_le: "days_in_month y m \<le> 31"
  by (simp add: days_in_month_def)

lemma make_date_bounds:
  "make_date y m d = Inr dt \<Longrightarrow> year dt < 10000 \<and> month dt < 100 \<and> day dt < 100"
  using days_in_month_le [of y m] by (auto simp: make_date_def split: if_splits)

lemma strptime_bounds:
  "strptime s f = Inr dt \<Longrightarrow> year dt < 10000 \<and> month dt < 100 \<and> day dt < 100"
  unfolding strptime_def
  by (auto split: list.splits if_splits sum.splits dest: make_date_bounds)

lemma digit_char_0: "digit_char 0 = CHR ''0''"
  by (simp add: digit_char_def)

lemma digit_char_small: "n < 10 \<Longrightarrow> digit_char (n div 10) = CHR ''0''"
  by (simp add: digit_char_def)

lemma str_nat_small: "n < 10 \<Longrightarrow> str_nat n = [digit_char n]"
  by (simp add: str_nat.simps)

lemma str_nat_step: "\<not> n < 10 \<Longrightarrow> str_nat n = str_nat (n div 10) @ [digit_char n]"
  by (simp add: str_nat.simps)

lemma div_10_chain:
  "(n::nat) div 10 div 10 = n div 100" "(n::nat) div 100 div 10 = n div 1000"
  by (simp_all add: div_mult2_eq [symmetric])

lemma replicate_small:
  "replicate 2 x = [x, x]" "replicate 3 x = [x, x, x]"
  by (simp_all add: numeral_2_eq_2 numeral_3_eq_3)

lemma zero_pad_2:
  assumes "n < 100"
  shows "zero_pad 2 (str_nat n) = [digit_char (n div 10), digit_char n]"
proof (cases "n < 10")
  case True
  then show ?thesis by (simp add: str_nat_small zero_pad_def digit_char_0)
next
  case False
  with assms have "n div 10 < 10" by simp
  with False show ?thesis by (simp add: str_nat_small str_nat_step zero_pad_def)
qed

lemma str_nat_4:
  assumes "1000 \<le> n" "n < 10000"
  shows "str_nat n =
           [digit_char (n div 1000), digit_char (n div 100), digit_char (n div 10), digit_char n]"
proof -
  from assms have "\<not> n < 10" "\<not> n div 10 < 10" "\<not> n div 100 < 10" "n div 1000 < 10"
    by simp_all
  then show ?thesis
    by (simp add: str_nat_small str_nat_step div_10_chain)
qed

lemma str_nat_3:
  assumes "100 \<le> n" "n < 1000"
  shows "str_nat n = [digit_char (n div 100), digit_char (n div 10), digit_char n]"
proof -
  from assms have "\<not> n < 10" "\<not> n div 10 < 10" "n div 100 < 10"
    by simp_all
  then show ?thesis
    by (simp add: str_nat_small str_nat_step div_10_chain)
qed

lemma is_digit_digit_char: "is_digit (digit_char n)"
proof -
  have "n mod 10 < length ''0123456789''" by simp
  then have "''0123456789'' ! (n mod 10) \<in> set ''0123456789''" by (rule nth_mem)
  then show ?thesis unfolding is_digit_def digit_char_def .
qed

lemma strftime_iso:
  assumes "1000 \<le> year dt" "year dt < 10000" "month dt < 100" "day dt < 100"
  shows "is_iso_date (strftime dt)"
  using assms by (simp add: strftime_def str_nat_4 zero_pad_2 is_iso_date_def is_digit_digit_char)

lemma strftime_short_year:
  assumes "100 \<le> year dt" "year dt < 1000" "month dt < 100" "day dt < 100"
  shows "length (strftime dt) = 9"
  using assms by (simp add: strftime_def str_nat_3 zero_pad_2)

lemma rmatch_groups:
  "(g, r) \<in> set (rmatch re s) \<Longrightarrow> fst ` set g \<subseteq> group_names re"
proof (induction re arbitrary: s g r)
  case (Cls cs)
  then show ?case by (auto split: list.splits if_splits)
next
  case Eps
  then show ?case by simp
next
  case (Cat a b)
  then show ?case by fastforce
next
  case (Alt a b)
  then show ?case by fastforce
next
  case (Grp n a)
  then show ?case by fastforce
qed

lemma group_absent:
  assumes "rmatch re s = (g, r) # ms" "c \<notin> group_names re"
  shows "group_int g c = Inr 1"
proof -
  from assms(1) have "(g, r) \<in> set (rmatch re s)" by simp
  then have "fst ` set g \<subseteq> group_names re" by (rule rmatch_groups)
  with assms(2) have "c \<notin> fst ` set g" by blast
  then have "map_of g c = None" by (simp add: map_of_eq_None_iff)
  then show ?thesis by (simp add: group_int_def)
qed

lemma make_date_fields: "make_date y m d = Inr dt \<Longrightarrow> year dt = y \<and> month dt = m \<and> day dt = d"
  by (auto simp: make_date_def split: if_splits)

lemma strptime_default_day:
  assumes "strptime s f = Inr dt" "CHR ''d'' \<notin> group_names (pattern f)"
  shows "day dt = 1"
  using assms unfolding strptime_def
  by (auto split: list.splits if_splits sum.splits dest!: make_date_fields simp: group_absent)

lemma strptime_default_month:
  assumes "strptime s f = Inr dt" "CHR ''m'' \<notin> group_names (pattern f)"
  shows "month dt = 1"
  using assms unfolding strptime_def
  by (auto split: list.splits if_splits sum.splits dest!: make_date_fields simp: group_absent)

lemma no_day_group:
  "CHR ''d'' \<notin> group_names (pattern ''%Y-%m'')"
  "CHR ''d'' \<notin> group_names (pattern ''%m/%Y'')"
  "CHR ''d'' \<notin> group_names (pattern ''%Y'')"
  by (simp_all add: directive_def re_digit_def re_nonzero_def)

lemma no_month_group: "CHR ''m'' \<notin> group_names (pattern ''%Y'')"
  by (simp add: directive_def re_digit_def re_nonzero_def)

lemmas strptime_eval =
  strptime_def directive_def re_digit_def re_nonzero_def group_int_def py_int_def py_strip_def
  py_isspace_def is_digit_def digit_val_def make_date_def days_in_month_def is_leap_def

lemmas format_date_eval =
  format_date_def date_formats_def strptime_eval strftime_def zero_pad_def str_nat.simps
  digit_char_def

lemma format_date_examples:
  "format_date (Some ''2020-05-07'') = Inr (Some ''2020-05-07'')"
  "format_date (Some ''2020-05'') = Inr (Some ''2020-05-01'')"
  "format_date (Some ''05/2020'') = Inr (Some ''2020-05-01'')"
  "format_date (Some ''2020'') = Inr (Some ''2020-01-01'')"
  "format_date (Some ''not a date'') = Inr None"
  by (simp_all add: format_date_eval)

lemma format_date_total: "\<exists>r. format_date d = Inr r"
  by (simp add: format_date_def try_formats_first split: option.splits)

lemma format_date_first_match:
  "s \<noteq> [] \<Longrightarrow>
     format_date (Some s) =
       Inr (case find (\<lambda>fmt. \<not> isl (strptime s fmt)) [''%Y-%m-%d'', ''%Y-%m'', ''%m/%Y'', ''%Y''] of
              None \<Rightarrow> None
            | Some fmt \<Rightarrow> Some (strftime (projr (strptime s fmt))))"
  using try_formats_first [of s date_formats] by (simp add: format_date_def date_formats_def)

lemma format_date_iso_from_1000:
  assumes "strptime s fmt = Inr dt" "1000 \<le> year dt"
  shows "is_iso_date (strftime dt)"
  using strptime_bounds [OF assms(1)] assms(2) by (simp add: strftime_iso)

text \<open>
  Claim C2. The claim, like the docstring of \<^verbatim>\<open>format_date\<close> ("ISO 8601 format
  (YYYY-MM-DD)"), has every matching string come out as \<^verbatim>\<open>YYYY-MM-DD\<close>. The date string
  \<^verbatim>\<open>0999\<close> matches the year-only pattern and parses to the year 999, and the function
  returns \<^verbatim>\<open>999-01-01\<close>, nine characters with a year of three digits, which is not of
  that form.
\<close>

theorem format_date_year_unpadded:
  "strptime ''0999'' ''%Y'' = Inr \<lparr>year = 999, month = 1, day = 1\<rparr>
   \<and> format_date (Some ''0999'') = Inr (Some ''999-01-01'')
   \<and> length ''999-01-01'' = 9
   \<and> \<not> is_iso_date ''999-01-01''"
  by (simp add: format_date_eval is_iso_date_def)

section \<open>The CSV record parser: properties\<close>

lemma py_strip_subset: "set (py_strip s) \<subseteq> set s"
proof
  fix c assume "c \<in> set (py_strip s)"
  then have "c \<in> set (dropWhile py_isspace (rev (dropWhile py_isspace s)))"
    by (simp add: py_strip_def)
  then have "c \<in> set (rev (dropWhile py_isspace s))" by (rule set_dropWhileD)
  then have "c \<in> set (dropWhile py_isspace s)" by simp
  then show "c \<in> set s" by (rule set_dropWhileD)
qed

lemma py_split_max_one:
  "sep \<in> set s \<Longrightarrow>
     py_split_max sep 1 s = [takeWhile (\<lambda>c. c \<noteq> sep) s, tl (dropWhile (\<lambda>c. c \<noteq> sep) s)]"
  by simp

lemma unpack2_split:
  "sep \<in> set s \<Longrightarrow>
     unpack2 (map f (py_split_max sep 1 s)) =
       Inr (f (takeWhile (\<lambda>c. c \<noteq> sep) s), f (tl (dropWhile (\<lambda>c. c \<noteq> sep) s)))"
  by (simp add: py_split_max_one unpack2_def)

lemma parse_author_entry: "parse_author found raw = found @ entry_name raw"
  by (simp add: parse_author_def entry_name_def Let_def py_split_max_one unpack2_def)

lemma foldl_parse_author: "foldl parse_author found raws = found @ concat (map entry_name raws)"
  by (induction raws arbitrary: found) (simp_all add: parse_author_entry)

lemma py_split_no_sep: "sep \<notin> set s \<Longrightarrow> py_split sep s = [s]"
  by (induction s) auto

lemma py_split_nonempty: "py_split sep s \<noteq> []"
  by (induction s) (auto split: list.splits)

lemma parse_row_authors:
  "parse_row row = Inr (Some it) \<Longrightarrow> row ''Author'' = Some (Some a) \<Longrightarrow>
     authors it = authors_of_field a"
  by (auto simp: parse_row_def row_get_def authors_of_field_def foldl_parse_author
      split: option.splits if_splits)

lemma parse_row_title:
  "parse_row row = Inr (Some it) \<Longrightarrow> has_title row \<and> title it = row_title row \<and> title it \<noteq> []"
  by (auto simp: parse_row_def has_title_def row_title_def truthy_def split: option.splits if_splits)

lemma parse_row_dropped: "parse_row row = Inr None \<Longrightarrow> \<not> has_title row"
  by (auto simp: parse_row_def has_title_def truthy_def split: option.splits if_splits)

lemma parse_row_no_title: "\<not> has_title row \<Longrightarrow> parse_row row = Inr None"
  by (auto simp: parse_row_def has_title_def truthy_def split: option.splits if_splits)

lemma parse_rows_acc:
  "parse_rows rows acc = Inr items \<Longrightarrow>
     map (\<lambda>it. Inr (Some it)) items =
       map (\<lambda>it. Inr (Some it)) acc @ map parse_row (filter has_title rows)"
proof (induction rows arbitrary: acc)
  case Nil
  then show ?case by simp
next
  case (Cons row rows)
  show ?case
  proof (cases "parse_row row")
    case (Inl e)
    with Cons.prems show ?thesis by simp
  next
    case (Inr r)
    show ?thesis
    proof (cases r)
      case None
      with Inr Cons show ?thesis by (simp add: parse_row_dropped)
    next
      case (Some it)
      with Inr Cons.prems have "parse_rows rows (acc @ [it]) = Inr items" by simp
      from Cons.IH [OF this] Inr Some show ?thesis by (simp add: parse_row_title)
    qed
  qed
qed

lemma parse_rows_titles:
  "parse_rows rows acc = Inr items \<Longrightarrow>
     map title items = map title acc @ filter (\<lambda>t. t \<noteq> []) (map row_title rows)"
proof (induction rows arbitrary: acc)
  case Nil
  then show ?case by simp
next
  case (Cons row rows)
  show ?case
  proof (cases "parse_row row")
    case (Inl e)
    with Cons.prems show ?thesis by simp
  next
    case (Inr r)
    show ?thesis
    proof (cases r)
      case None
      with Inr have "row_title row = []"
        by (auto simp: parse_row_def row_title_def split: option.splits if_splits)
      with None Inr Cons show ?thesis by simp
    next
      case (Some it)
      with Inr Cons.prems have "parse_rows rows (acc @ [it]) = Inr items" by simp
      moreover from Inr Some have "title it = row_title row" "title it \<noteq> []"
        using parse_row_title [of row it] by blast+
      ultimately show ?thesis using Cons.IH [of "acc @ [it]"] by simp
    qed
  qed
qed

lemma parse_row_total:
  "row ''Author'' \<noteq> Some None \<Longrightarrow> \<exists>r. parse_row row = Inr r"
  by (auto simp: parse_row_def row_get_def split: option.splits)

lemma parse_rows_total:
  "\<forall>row \<in> set rows. row ''Author'' \<noteq> Some None \<Longrightarrow> \<exists>items. parse_rows rows acc = Inr items"
proof (induction rows arbitrary: acc)
  case Nil
  show ?case by simp
next
  case (Cons row rows)
  then obtain r where "parse_row row = Inr r" using parse_row_total [of row] by auto
  with Cons show ?case by (cases r) simp_all
qed

lemmas parser_eval =
  parse_zotero_csv_def parse_row_def row_get_def parse_author_def unpack2_def py_strip_def
  py_isspace_def str_nat.simps digit_char_def

lemma parse_zotero_csv_result: "fst (parse_zotero_csv path rows) = parse_rows rows []"
  by (simp add: parse_zotero_csv_def Let_def split: sum.splits)

lemmas authors_eval = authors_of_field_def entry_name_def py_strip_def py_isspace_def

text \<open>
  Claim C6, as stated, fails: an entry without a comma is not kept as it stands between the
  semicolons. The entry \<^verbatim>\<open>" Bob"\<close> of the field \<^verbatim>\<open>"Alice; Bob"\<close> comes out as
  \<^verbatim>\<open>"Bob"\<close>, and the entry \<^verbatim>\<open>" "\<close> of \<^verbatim>\<open>"Alice; ;Bob"\<close>, which is not empty, is omitted.
\<close>

theorem authors_verbatim_counterexample:
  "py_split CHR '';'' ''Alice; Bob'' = [''Alice'', '' Bob'']
   \<and> CHR '','' \<notin> set '' Bob''
   \<and> parse_row [''Title'' \<mapsto> Some ''A'', ''Author'' \<mapsto> Some ''Alice; Bob''] =
       Inr (Some \<lparr>title = ''A'', authors = [''Alice'', ''Bob''], date = Some [], doi = Some []\<rparr>)
   \<and> py_split CHR '';'' ''Alice; ;Bob'' = [''Alice'', '' '', ''Bob'']
   \<and> parse_row [''Title'' \<mapsto> Some ''A'', ''Author'' \<mapsto> Some ''Alice; ;Bob''] =
       Inr (Some \<lparr>title = ''A'', authors = [''Alice'', ''Bob''], date = Some [], doi = Some []\<rparr>)"
  by (simp add: parser_eval)

text \<open>
  Claim C6, amended. The author field is split on semicolons and every entry is stripped
  of surrounding white space first. A stripped entry with a comma is cut at its first
  comma and becomes the stripped part behind the comma, a space, and the stripped part
  before it; a stripped entry without a comma is kept as it is; an entry that is empty
  once stripped is omitted. A field with neither semicolon nor comma gives its stripped
  text alone, and \<^verbatim>\<open>"Doe, Jane; Smith, Bob"\<close> gives \<^verbatim>\<open>["Jane Doe", "Bob Smith"]\<close>.
\<close>

theorem parse_row_authors_stripped:
  "(parse_row row = Inr (Some it) \<longrightarrow> row ''Author'' = Some (Some a) \<longrightarrow>
      authors it = authors_of_field a)
   \<and> (parse_row row' = Inr (Some it') \<longrightarrow> row' ''Author'' = None \<longrightarrow> authors it' = [])
   \<and> (CHR '';'' \<notin> set b \<longrightarrow> CHR '','' \<notin> set b \<longrightarrow> py_strip b \<noteq> [] \<longrightarrow>
        authors_of_field b = [py_strip b])
   \<and> authors_of_field ''Doe, Jane; Smith, Bob'' = [''Jane Doe'', ''Bob Smith'']"
proof -
  have 1: "parse_row row = Inr (Some it) \<longrightarrow> row ''Author'' = Some (Some a) \<longrightarrow>
      authors it = authors_of_field a"
    using parse_row_authors [of row it a] by blast
  have 2: "parse_row row' = Inr (Some it') \<longrightarrow> row' ''Author'' = None \<longrightarrow> authors it' = []"
    by (auto simp: parse_row_def row_get_def parse_author_def py_strip_def
        split: option.splits if_splits)
  have 3: "CHR '';'' \<notin> set b \<longrightarrow> CHR '','' \<notin> set b \<longrightarrow> py_strip b \<noteq> [] \<longrightarrow>
        authors_of_field b = [py_strip b]"
  proof (intro impI)
    assume b: "CHR '';'' \<notin> set b" "CHR '','' \<notin> set b" "py_strip b \<noteq> []"
    have "set (py_strip b) \<subseteq> set b"
      by (rule py_strip_subset)
    with b(2) have "CHR '','' \<notin> set (py_strip b)" by blast
    with b show "authors_of_field b = [py_strip b]"
      by (simp add: authors_of_field_def py_split_no_sep entry_name_def Let_def)
  qed
  have 4: "authors_of_field ''Doe, Jane; Smith, Bob'' = [''Jane Doe'', ''Bob Smith'']"
    by (simp add: authors_eval)
  from 1 2 3 4 show ?thesis by blast
qed

theorem parse_row_authors_stripped_witness:
  "parse_row [''Title'' \<mapsto> Some ''A'', ''Author'' \<mapsto> Some ''Doe, Jane; ; Bob Smith ;,''] =
     Inr (Some \<lparr>title = ''A'', authors = [''Jane Doe'', ''Bob Smith'', '' ''],
                date = Some [], doi = Some []\<rparr>)
   \<and> authors_of_field ''Doe, Jane; ; Bob Smith ;,'' = [''Jane Doe'', ''Bob Smith'', '' '']
   \<and> parse_row [''Title'' \<mapsto> Some ''B''] =
       Inr (Some \<lparr>title = ''B'', authors = [], date = Some [], doi = Some []\<rparr>)
   \<and> CHR '';'' \<notin> set '' Jane Doe '' \<and> CHR '','' \<notin> set '' Jane Doe ''
   \<and> py_strip '' Jane Doe '' = ''Jane Doe''
   \<and> authors_of_field '' Jane Doe '' = [''Jane Doe'']"
proof -
  let ?row = "[''Title'' \<mapsto> Some ''A'', ''Author'' \<mapsto> Some ''Doe, Jane; ; Bob Smith ;,'']"
  let ?it = "\<lparr>title = ''A'', authors = [''Jane Doe'', ''Bob Smith'', '' ''],
                date = Some [], doi = Some []\<rparr>"
  let ?row' = "[''Title'' \<mapsto> Some ''B''] :: row"
  let ?it' = "\<lparr>title = ''B'', authors = [], date = Some [], doi = Some []\<rparr>"
  have r: "parse_row ?row = Inr (Some ?it)" "parse_row ?row' = Inr (Some ?it')"
    by (simp_all add: parser_eval)
  have k: "?row ''Author'' = Some (Some ''Doe, Jane; ; Bob Smith ;,'')" "?row' ''Author'' = None"
    by simp_all
  have s: "CHR '';'' \<notin> set '' Jane Doe ''" "CHR '','' \<notin> set '' Jane Doe ''"
    "py_strip '' Jane Doe '' = ''Jane Doe''"
    by (simp_all add: py_strip_def py_isspace_def)
  from parse_row_authors_stripped [of ?row ?it "''Doe, Jane; ; Bob Smith ;,''" ?row' ?it'
      "'' Jane Doe ''"] r k s
  have "authors ?it = authors_of_field ''Doe, Jane; ; Bob Smith ;,''"
    "authors_of_field '' Jane Doe '' = [''Jane Doe'']"
    by simp_all
  with r s show ?thesis by simp
qed

text \<open>
  Claim C7. Every item of the sequence that the parser returns has a non-empty title: the
  rows whose title is absent, \<^verbatim>\<open>None\<close> or empty are dropped, and the items are those of
  the other rows, in row order, a title that occurs twice giving two items.
\<close>

theorem parse_zotero_csv_titles:
  assumes "fst (parse_zotero_csv path rows) = Inr items"
  shows "(\<forall>it \<in> set items. title it \<noteq> [])
         \<and> map title items = filter (\<lambda>t. t \<noteq> []) (map row_title rows)
         \<and> map (\<lambda>it. Inr (Some it)) items = map parse_row (filter has_title rows)"
proof -
  from assms have p: "parse_rows rows [] = Inr items"
    by (simp add: parse_zotero_csv_result)
  from parse_rows_titles [OF p] have t: "map title items = filter (\<lambda>t. t \<noteq> []) (map row_title rows)"
    by simp
  have "\<forall>it \<in> set items. title it \<noteq> []"
  proof
    fix it assume "it \<in> set items"
    then have "title it \<in> set (map title items)" by simp
    with t show "title it \<noteq> []" by simp
  qed
  with t parse_rows_acc [OF p] show ?thesis by simp
qed

theorem parse_zotero_csv_titles_witness:
  "fst (parse_zotero_csv ''z.csv''
          [[''Title'' \<mapsto> Some ''A''], [''Title'' \<mapsto> Some [], ''Author'' \<mapsto> Some ''X''],
           [''Author'' \<mapsto> Some ''Y''], [''Title'' \<mapsto> None], [''Title'' \<mapsto> Some ''B''],
           [''Title'' \<mapsto> Some ''A'']]) =
     Inr [\<lparr>title = ''A'', authors = [], date = Some [], doi = Some []\<rparr>,
          \<lparr>title = ''B'', authors = [], date = Some [], doi = Some []\<rparr>,
          \<lparr>title = ''A'', authors = [], date = Some [], doi = Some []\<rparr>]
   \<and> map row_title
        [[''Title'' \<mapsto> Some ''A''], [''Title'' \<mapsto> Some [], ''Author'' \<mapsto> Some ''X''],
         [''Author'' \<mapsto> Some ''Y''], [''Title'' \<mapsto> None], [''Title'' \<mapsto> Some ''B''],
         [''Title'' \<mapsto> Some ''A'']] = [''A'', [], [], [], ''B'', ''A'']"
proof -
  let ?rows = "[[''Title'' \<mapsto> Some ''A''], [''Title'' \<mapsto> Some [], ''Author'' \<mapsto> Some ''X''],
           [''Author'' \<mapsto> Some ''Y''], [''Title'' \<mapsto> None], [''Title'' \<mapsto> Some ''B''],
           [''Title'' \<mapsto> Some ''A'']] :: row list"
  let ?items = "[\<lparr>title = ''A'', authors = [], date = Some [], doi = Some []\<rparr>,
          \<lparr>title = ''B'', authors = [], date = Some [], doi = Some []\<rparr>,
          \<lparr>title = ''A'', authors = [], date = Some [], doi = Some []\<rparr>]"
  have h: "fst (parse_zotero_csv ''z.csv'' ?rows) = Inr ?items"
    by (simp add: parser_eval)
  from parse_zotero_csv_titles [OF h]
  have "map title ?items = filter (\<lambda>t. t \<noteq> []) (map row_title ?rows)" by blast
  moreover have "map row_title ?rows = [''A'', [], [], [], ''B'', ''A'']"
    by (simp add: row_title_def row_get_def)
  ultimately show ?thesis using h by simp
qed

lemma split_comma_two_parts:
  "CHR '','' \<in> set author \<Longrightarrow>
      length (py_split_max CHR '','' 1 author) = 2
      \<and> unpack2 (map py_strip (py_split_max CHR '','' 1 author)) =
          Inr (py_strip (takeWhile (\<lambda>c. c \<noteq> CHR '','') author),
               py_strip (tl (dropWhile (\<lambda>c. c \<noteq> CHR '','') author)))"
  by (simp add: py_split_max_one unpack2_def)

lemma parse_rows_string_authors:
  "\<forall>row \<in> set rows. row ''Author'' \<noteq> Some None \<Longrightarrow>
     \<exists>items. fst (parse_zotero_csv path rows) = Inr items"
  using parse_rows_total [of rows "[]"] by (simp add: parse_zotero_csv_result)

text \<open>
  Claim C10. The claim has the parser never raise on the author field. Cutting an entry
  at its first comma does give two parts, so the \<^verbatim>\<open>except ValueError\<close> branch is dead
  (\<open>split_comma_two_parts\<close>), and the parser returns on every row whose author is a string
  (\<open>parse_rows_string_authors\<close>). But a row with fewer fields than the header has its
  author present with the value \<^verbatim>\<open>None\<close>: the default of \<^verbatim>\<open>row.get('Author', '')\<close> does
  not apply, \<^verbatim>\<open>None.split(';')\<close> raises \<^verbatim>\<open>AttributeError\<close>, and the parser raises it.
\<close>

theorem short_row_raises:
  "row_get [''Title'' \<mapsto> Some ''Foo'', ''Author'' \<mapsto> None, ''Date'' \<mapsto> None, ''DOI'' \<mapsto> None]
     ''Author'' (Some []) = None
   \<and> parse_row [''Title'' \<mapsto> Some ''Foo'', ''Author'' \<mapsto> None, ''Date'' \<mapsto> None,
                 ''DOI'' \<mapsto> None] = Inl AttributeError
   \<and> parse_zotero_csv ''z.csv''
        [[''Title'' \<mapsto> Some ''Foo'', ''Author'' \<mapsto> None, ''Date'' \<mapsto> None, ''DOI'' \<mapsto> None]] =
       (Inl AttributeError, [''Reading Zotero data from: z.csv''])"
  by (simp add: parser_eval)

section \<open>The sync orchestrator: properties\<close>

lemma format_date_date_iso: "format_date (date it) = Inr (date_iso_of it)"
  using format_date_total [of "date it"] by (auto simp: date_iso_of_def)

lemma answers_Nil: "answers srv dt n [] = []"
  by (simp add: answers_def)

lemma answers_Cons:
  "answers srv dt n (it # its) =
     create_response srv n (page_properties dt it) # answers srv dt (Suc n) its"
  by (simp add: answers_def)

lemma push_items_run:
  "\<exists>st' more.
     push_items srv tok db ex dt items (p, s) st =
       (Inr (p + length (filter (\<lambda>a. \<not> isl a)
                   (answers srv dt (length (sent st)) (filter (\<lambda>it. Some (title it) \<notin> ex) items))),
             s + length (filter (\<lambda>it. Some (title it) \<in> ex) items)), st')
     \<and> sent st' = sent st @
         map (\<lambda>(it, a). (Create_Page tok db (page_properties dt it), \<not> isl a))
           (zip (filter (\<lambda>it. Some (title it) \<notin> ex) items)
                (answers srv dt (length (sent st)) (filter (\<lambda>it. Some (title it) \<notin> ex) items)))
     \<and> log st' = log st @ more
     \<and> (\<forall>(it, a) \<in> set (zip (filter (\<lambda>it. Some (title it) \<notin> ex) items)
                (answers srv dt (length (sent st)) (filter (\<lambda>it. Some (title it) \<notin> ex) items))).
           set (outcome_lines it a) \<subseteq> set more)"
proof (induction items arbitrary: p s st)
  case Nil
  show ?case by (simp add: answers_Nil)
next
  case (Cons it items)
  show ?case
  proof (cases "Some (title it) \<in> ex")
    case True
    define line where "line = ''Skipping existing item: '' @ title it"
    let ?st1 = "logger line st"
    have step: "push_items srv tok db ex dt (it # items) (p, s) st =
                  push_items srv tok db ex dt items (p, s + 1) ?st1"
      using True by (simp add: line_def)
    have same: "sent ?st1 = sent st" "log ?st1 = log st @ [line]"
      by (simp_all add: logger_def)
    from Cons [of p "s + 1" ?st1] obtain st' more where
      "push_items srv tok db ex dt items (p, s + 1) ?st1 =
       (Inr (p + length (filter (\<lambda>a. \<not> isl a)
                   (answers srv dt (length (sent ?st1)) (filter (\<lambda>it. Some (title it) \<notin> ex) items))),
             s + 1 + length (filter (\<lambda>it. Some (title it) \<in> ex) items)), st')"
      "sent st' = sent ?st1 @
         map (\<lambda>(it, a). (Create_Page tok db (page_properties dt it), \<not> isl a))
           (zip (filter (\<lambda>it. Some (title it) \<notin> ex) items)
                (answers srv dt (length (sent ?st1)) (filter (\<lambda>it. Some (title it) \<notin> ex) items)))"
      "log st' = log ?st1 @ more"
      "\<forall>(it, a) \<in> set (zip (filter (\<lambda>it. Some (title it) \<notin> ex) items)
                (answers srv dt (length (sent ?st1)) (filter (\<lambda>it. Some (title it) \<notin> ex) items))).
           set (outcome_lines it a) \<subseteq> set more"
      by blast
    with True show ?thesis
      unfolding step same
      by (intro exI [of _ st'] exI [of _ "line # more"]) auto
  next
    case False
    let ?props = "page_properties dt it"
    let ?a = "create_response srv (length (sent st)) ?props"
    let ?st1 = "record_call (Create_Page tok db ?props) (\<not> isl ?a) st"
    let ?st2 = "st\<lparr>sent := sent st @ [(Create_Page tok db ?props, \<not> isl ?a)],
                  log := log st @ outcome_lines it ?a\<rparr>"
    let ?p1 = "if isl ?a then p else p + 1"
    have step: "push_items srv tok db ex dt (it # items) (p, s) st =
                  push_items srv tok db ex dt items (?p1, s) ?st2"
      using False
      by (cases ?a)
         (auto simp: format_date_date_iso page_properties_def logger_def record_call_def
            outcome_lines_def failure_lines_def split: option.splits)
    have len: "length (sent ?st2) = Suc (length (sent st))" by simp
    from Cons [of ?p1 s ?st2] obtain st' more where r:
      "push_items srv tok db ex dt items (?p1, s) ?st2 =
       (Inr (?p1 + length (filter (\<lambda>a. \<not> isl a)
                   (answers srv dt (length (sent ?st2)) (filter (\<lambda>it. Some (title it) \<notin> ex) items))),
             s + length (filter (\<lambda>it. Some (title it) \<in> ex) items)), st')"
      "sent st' = sent ?st2 @
         map (\<lambda>(it, a). (Create_Page tok db (page_properties dt it), \<not> isl a))
           (zip (filter (\<lambda>it. Some (title it) \<notin> ex) items)
                (answers srv dt (length (sent ?st2)) (filter (\<lambda>it. Some (title it) \<notin> ex) items)))"
      "log st' = log ?st2 @ more"
      "\<forall>(it, a) \<in> set (zip (filter (\<lambda>it. Some (title it) \<notin> ex) items)
                (answers srv dt (length (sent ?st2)) (filter (\<lambda>it. Some (title it) \<notin> ex) items))).
           set (outcome_lines it a) \<subseteq> set more"
      by blast
    show ?thesis
      using False r unfolding step len
      by (intro exI [of _ st'] exI [of _ "outcome_lines it ?a @ more"])
         (auto simp: answers_Cons)
  qed
qed


lemma zip_answers_length: "length (answers srv dt n its) = length its"
  by (simp add: answers_def)

lemma count_ok_calls:
  "length xs = length ys \<Longrightarrow>
     length (filter snd (map (\<lambda>(it, a). (f it, \<not> isl a)) (zip xs ys)))
       = length (filter (\<lambda>a. \<not> isl a) ys)"
  by (induction xs ys rule: list_induct2) auto

lemma count_failed_calls:
  "length xs = length ys \<Longrightarrow>
     length (filter (\<lambda>call. \<not> snd call) (map (\<lambda>(it, a). (f it, \<not> isl a)) (zip xs ys)))
       = length (filter isl ys)"
  by (induction xs ys rule: list_induct2) auto

lemma requests_of_calls:
  "length xs = length ys \<Longrightarrow>
     map fst (map (\<lambda>(it, a). (f it, \<not> isl a)) (zip xs ys)) = map f xs"
  by (induction xs ys rule: list_induct2) auto

lemma filter_partition_length:
  "length (filter P xs) + length (filter (\<lambda>x. \<not> P x) xs) = length xs"
  by (induction xs) auto

lemma push_to_notion_run:
  assumes idx: "get_existing_notion_titles srv tok db st = Some (Inr ex, st1)"
      and sch: "get_database_properties srv tok db st1 = (Inr types, st2)"
  shows "\<exists>st3 more.
     push_to_notion srv items tok db st = Some (Inr None, st3)
     \<and> calls_since st2 st3 =
         map (\<lambda>(it, a). (Create_Page tok db (page_properties (doi_type_of types) it), \<not> isl a))
           (zip (new_items ex items)
                (answers srv (doi_type_of types) (length (sent st2)) (new_items ex items)))
     \<and> log st3 = log st2 @ [''DOI property type: '' @ doi_type_of types] @ more
         @ [finished_line
              (length (filter (\<lambda>a. \<not> isl a)
                 (answers srv (doi_type_of types) (length (sent st2)) (new_items ex items))))
              (length (duplicates ex items))]
     \<and> (\<forall>(it, a) \<in> set (zip (new_items ex items)
                (answers srv (doi_type_of types) (length (sent st2)) (new_items ex items))).
           set (outcome_lines it a) \<subseteq> set more)"
proof -
  define line where "line = ''DOI property type: '' @ doi_type_of types"
  let ?st = "logger line st2"
  have same: "sent ?st = sent st2" "log ?st = log st2 @ [line]"
    by (simp_all add: logger_def)
  from push_items_run [of srv tok db ex "doi_type_of types" items 0 0 ?st]
  obtain st' more where r:
    "push_items srv tok db ex (doi_type_of types) items (0, 0) ?st =
       (Inr (length (filter (\<lambda>a. \<not> isl a)
                (answers srv (doi_type_of types) (length (sent st2)) (new_items ex items))),
             length (duplicates ex items)), st')"
    "sent st' = sent st2 @
         map (\<lambda>(it, a). (Create_Page tok db (page_properties (doi_type_of types) it), \<not> isl a))
           (zip (new_items ex items)
                (answers srv (doi_type_of types) (length (sent st2)) (new_items ex items)))"
    "log st' = log st2 @ [line] @ more"
    "\<forall>(it, a) \<in> set (zip (new_items ex items)
                (answers srv (doi_type_of types) (length (sent st2)) (new_items ex items))).
           set (outcome_lines it a) \<subseteq> set more"
    unfolding same new_items_def duplicates_def by auto
  let ?fin = "finished_line
              (length (filter (\<lambda>a. \<not> isl a)
                 (answers srv (doi_type_of types) (length (sent st2)) (new_items ex items))))
              (length (duplicates ex items))"
  have "push_to_notion srv items tok db st = Some (Inr None, logger ?fin st')"
    using idx sch r(1) by (simp add: push_to_notion_def line_def finished_line_def)
  moreover have "calls_since st2 (logger ?fin st') =
         map (\<lambda>(it, a). (Create_Page tok db (page_properties (doi_type_of types) it), \<not> isl a))
           (zip (new_items ex items)
                (answers srv (doi_type_of types) (length (sent st2)) (new_items ex items)))"
    using r(2) by (simp add: calls_since_def logger_def)
  moreover have "log (logger ?fin st') = log st2 @ [line] @ more @ [?fin]"
    using r(3) by (simp add: logger_def)
  ultimately show ?thesis using r(4) unfolding line_def by blast
qed

lemma fetch_pages_fails:
  "query_response srv (length (sent st)) (start_cursor c) = Inl e \<Longrightarrow>
     fetch_pages srv tok db c acc st =
       Some (Inl (RequestException e),
             logger (''Failed to fetch existing pages from Notion: '' @ message e)
               (record_call (Query_Database tok db (start_cursor c)) False st))"
  by (subst fetch_pages.simps) simp

lemma fetch_pages_calls:
  assumes "fetch_pages srv tok db c acc st = Some y"
  shows "\<exists>calls. sent (snd y) = sent st @ calls
           \<and> (\<forall>call \<in> set calls. \<not> is_create call)
           \<and> (\<forall>ex. fst y = Inr ex \<longrightarrow> (\<forall>call \<in> set calls. snd call))
           \<and> (\<forall>x. fst y = Inl x \<longrightarrow> (\<exists>e. x = RequestException e))"
proof (rule fetch_pages.raw_induct [OF _ assms], goal_cases)
  case (1 f srv tok db c acc st y)
  let ?q = "Query_Database tok db (start_cursor c)"
  show ?case
  proof (cases "query_response srv (length (sent st)) (start_cursor c)")
    case (Inl e)
    with 1(2) show ?thesis
      by (intro exI [of _ "[(?q, False)]"]) (auto simp: logger_def record_call_def)
  next
    case (Inr data)
    show ?thesis
    proof (cases "has_more data")
      case True
      with Inr 1(2) have "f srv tok db (next_cursor data)
          (foldl add_page acc (results data)) (record_call ?q True st) = Some y"
        by simp
      from 1(1) [OF this] obtain calls where
        "sent (snd y) = sent (record_call ?q True st) @ calls"
        "\<forall>call \<in> set calls. \<not> is_create call"
        "\<forall>ex. fst y = Inr ex \<longrightarrow> (\<forall>call \<in> set calls. snd call)"
        "\<forall>x. fst y = Inl x \<longrightarrow> (\<exists>e. x = RequestException e)"
        by blast
      then show ?thesis
        by (intro exI [of _ "(?q, True) # calls"]) (auto simp: record_call_def)
    next
      case False
      with Inr 1(2) show ?thesis
        by (intro exI [of _ "[(?q, True)]"]) (auto simp: record_call_def)
    qed
  qed
qed

lemma get_existing_calls:
  assumes "get_existing_notion_titles srv tok db st = Some (r, st1)"
  shows "\<exists>calls. sent st1 = sent st @ calls
           \<and> (\<forall>call \<in> set calls. \<not> is_create call)
           \<and> (\<forall>ex. r = Inr ex \<longrightarrow> (\<forall>call \<in> set calls. snd call))
           \<and> (\<forall>x. r = Inl x \<longrightarrow> (\<exists>e. x = RequestException e))"
proof -
  from assms obtain y where y: "fetch_pages srv tok db None {} st = Some y"
    and r: "fst y = r" and s: "sent (snd y) = sent st1"
    by (auto simp: get_existing_notion_titles_def logger_def split: option.splits sum.splits)
  from fetch_pages_calls [OF y] r s show ?thesis by simp
qed

lemma get_database_properties_calls:
  "get_database_properties srv tok db st1 = (r, st2) \<Longrightarrow>
     sent st2 = sent st1 @ [(Retrieve_Database tok db, \<not> isl r)]"
  by (auto simp: get_database_properties_def logger_def record_call_def split: sum.splits)

lemma push_to_notion_index_error:
  "get_existing_notion_titles srv tok db st = Some (Inl x, st1) \<Longrightarrow>
     push_to_notion srv items tok db st = Some (Inl x, st1)"
  by (simp add: push_to_notion_def)

lemma push_to_notion_schema_error:
  "get_existing_notion_titles srv tok db st = Some (Inr ex, st1) \<Longrightarrow>
   schema_response srv (length (sent st1)) = Inl e \<Longrightarrow>
     push_to_notion srv items tok db st =
       Some (Inl (RequestException e),
             logger (''Could not fetch database schema: '' @ message e)
               (record_call (Retrieve_Database tok db) False st1))"
  by (simp add: push_to_notion_def get_database_properties_def)


lemma calls_since_append: "sent st' = sent st @ calls \<Longrightarrow> calls_since st st' = calls"
  by (simp add: calls_since_def)

lemma doi_value_of_stripped:
  "doi_value_of it = (if truthy (doi it) then Some (stripped_doi it) else None)"
  by (auto simp: doi_value_of_def stripped_doi_def truthy_def split: option.splits)

lemma stripped_doi_empty: "\<not> truthy (doi it) \<Longrightarrow> stripped_doi it = []"
  by (auto simp: stripped_doi_def truthy_def py_strip_def split: option.splits)

lemma doi_field:
  "map_of (build_properties dt it d) ''DOI'' =
     (if stripped_doi it = [] then None
      else Some (encode_doi dt (doi_url_of (stripped_doi it))))"
proof (cases "truthy (doi it)")
  case True
  then show ?thesis
    by (simp add: build_properties_def doi_value_of_stripped encode_doi_def doi_url_of_def Let_def
        split: option.splits)
next
  case False
  then show ?thesis
    by (simp add: build_properties_def doi_value_of_stripped stripped_doi_empty
        split: option.splits)
qed

lemmas run_eval =
  push_to_notion_def get_existing_notion_titles_def fetch_pages.simps
  get_database_properties_def start_cursor_def truthy_def add_page_def logger_def
  record_call_def doi_type_of_def build_properties_def doi_value_of_def format_date_def
  str_nat.simps digit_char_def init_run_def paper_def demo_remote_def flaky_remote_def
  broken_pages_remote_def no_schema_remote_def py_strip_def py_isspace_def py_startswith_def

lemmas spec_eval =
  new_items_def duplicates_def finished_line_def page_properties_def
  date_iso_of_def answers_def failure_lines_def stripped_doi_def doi_url_of_def encode_doi_def

lemma demo_run:
  "push_to_notion demo_remote [paper ''Paper A'', paper ''Paper B''] ''secret'' ''db1'' init_run =
     Some (Inr None,
           \<lparr>log = [''Found 1 existing titles in Notion.'', ''DOI property type: url'',
                   ''Skipping existing item: Paper A'', ''Pushed: Paper B'',
                   ''Finished. pushed=1, skipped=1''],
            sent = [(Query_Database ''secret'' ''db1'' None, True),
                    (Retrieve_Database ''secret'' ''db1'', True),
                    (Create_Page ''secret'' ''db1''
                       [(''Title'', Title_Value ''Paper B''),
                        (''Authors'', Rich_Text_Value ''Unknown'')], True)]\<rparr>)"
  by (simp add: run_eval)

text \<open>
  Claim C1, as stated, fails: the operation returns no record of counts. On the example
  of the specification (remote title "Paper A", local items "Paper A" and "Paper B") its
  value is \<^verbatim>\<open>None\<close>, and the two counts appear only in the last line of the log.
\<close>

theorem sync_result_counterexample:
  "push_to_notion demo_remote [paper ''Paper A'', paper ''Paper B''] ''secret'' ''db1'' init_run =
     Some (Inr None,
           \<lparr>log = [''Found 1 existing titles in Notion.'', ''DOI property type: url'',
                   ''Skipping existing item: Paper A'', ''Pushed: Paper B'',
                   ''Finished. pushed=1, skipped=1''],
            sent = [(Query_Database ''secret'' ''db1'' None, True),
                    (Retrieve_Database ''secret'' ''db1'', True),
                    (Create_Page ''secret'' ''db1''
                       [(''Title'', Title_Value ''Paper B''),
                        (''Authors'', Rich_Text_Value ''Unknown'')], True)]\<rparr>)"
  by (rule demo_run)

text \<open>
  Claim C1, amended. Whenever the sync operation returns normally its value is
  \<^verbatim>\<open>None\<close>; and when the title index and the schema are obtained, it does return, after
  logging as its last line the two counts, where pushed is the number of creation calls
  that succeeded and skipped the number of items whose title is in the index.
\<close>

theorem push_to_notion_logs_counts:
  "(push_to_notion srv items tok db st = Some (Inr v, st') \<longrightarrow> v = None)
   \<and> (get_existing_notion_titles srv tok db st = Some (Inr ex, st1) \<longrightarrow>
       get_database_properties srv tok db st1 = (Inr types, st2) \<longrightarrow>
       (\<exists>st3. push_to_notion srv items tok db st = Some (Inr None, st3)
          \<and> last (log st3) =
              finished_line (length (filter snd (calls_since st2 st3)))
                (length (duplicates ex items))))"
proof -
  have 1: "push_to_notion srv items tok db st = Some (Inr v, st') \<longrightarrow> v = None"
    by (auto simp: push_to_notion_def split: option.splits sum.splits prod.splits)
  have 2: "\<exists>st3. push_to_notion srv items tok db st = Some (Inr None, st3)
          \<and> last (log st3) =
              finished_line (length (filter snd (calls_since st2 st3)))
                (length (duplicates ex items))"
    if idx: "get_existing_notion_titles srv tok db st = Some (Inr ex, st1)"
      and sch: "get_database_properties srv tok db st1 = (Inr types, st2)"
  proof -
    from push_to_notion_run [OF idx sch, of items] obtain st3 more where r:
      "push_to_notion srv items tok db st = Some (Inr None, st3)"
      "calls_since st2 st3 =
         map (\<lambda>(it, a). (Create_Page tok db (page_properties (doi_type_of types) it), \<not> isl a))
           (zip (new_items ex items)
                (answers srv (doi_type_of types) (length (sent st2)) (new_items ex items)))"
      "log st3 = log st2 @ [''DOI property type: '' @ doi_type_of types] @ more
         @ [finished_line
              (length (filter (\<lambda>a. \<not> isl a)
                 (answers srv (doi_type_of types) (length (sent st2)) (new_items ex items))))
              (length (duplicates ex items))]"
      by blast
    have "length (filter snd (calls_since st2 st3)) =
          length (filter (\<lambda>a. \<not> isl a)
                 (answers srv (doi_type_of types) (length (sent st2)) (new_items ex items)))"
      unfolding r(2) by (rule count_ok_calls) (simp add: zip_answers_length)
    with r(1,3) show ?thesis by simp
  qed
  from 1 2 show ?thesis by blast
qed


lemma demo_index:
  "get_existing_notion_titles demo_remote ''secret'' ''db1'' init_run =
     Some (Inr {Some ''Paper A''},
           \<lparr>log = [''Found 1 existing titles in Notion.''],
            sent = [(Query_Database ''secret'' ''db1'' None, True)]\<rparr>)"
  by (simp add: run_eval)

lemma demo_schema:
  "get_database_properties demo_remote ''secret'' ''db1''
     \<lparr>log = [''Found 1 existing titles in Notion.''],
      sent = [(Query_Database ''secret'' ''db1'' None, True)]\<rparr> =
     (Inr [''DOI'' \<mapsto> ''url''],
      \<lparr>log = [''Found 1 existing titles in Notion.''],
       sent = [(Query_Database ''secret'' ''db1'' None, True),
               (Retrieve_Database ''secret'' ''db1'', True)]\<rparr>)"
  by (simp add: run_eval)

theorem push_to_notion_logs_counts_witness:
  "get_existing_notion_titles demo_remote ''secret'' ''db1'' init_run =
     Some (Inr {Some ''Paper A''},
           \<lparr>log = [''Found 1 existing titles in Notion.''],
            sent = [(Query_Database ''secret'' ''db1'' None, True)]\<rparr>)
   \<and> (\<exists>v st'. push_to_notion demo_remote [paper ''Paper A'', paper ''Paper B''] ''secret'' ''db1''
                 init_run = Some (Inr v, st') \<and> v = None)
   \<and> (\<exists>st3. push_to_notion demo_remote [paper ''Paper A'', paper ''Paper B''] ''secret'' ''db1''
               init_run = Some (Inr None, st3)
          \<and> last (log st3) = ''Finished. pushed=1, skipped=1'')"
proof -
  let ?items = "[paper ''Paper A'', paper ''Paper B'']"
  let ?st2 = "\<lparr>log = [''Found 1 existing titles in Notion.''],
       sent = [(Query_Database ''secret'' ''db1'' None, True),
               (Retrieve_Database ''secret'' ''db1'', True)]\<rparr>"
  note inst = push_to_notion_logs_counts [of demo_remote ?items "''secret''" "''db1''" init_run]
  from inst demo_index demo_schema
  obtain st3 where r:
    "push_to_notion demo_remote ?items ''secret'' ''db1'' init_run = Some (Inr None, st3)"
    "last (log st3) = finished_line (length (filter snd (calls_since ?st2 st3)))
                (length (duplicates {Some ''Paper A''} ?items))"
    by blast
  from r(1) have "calls_since ?st2 st3 =
      [(Create_Page ''secret'' ''db1''
          [(''Title'', Title_Value ''Paper B''), (''Authors'', Rich_Text_Value ''Unknown'')], True)]"
    by (auto simp: demo_run calls_since_def)
  with r(2) have "last (log st3) = ''Finished. pushed=1, skipped=1''"
    by (simp add: finished_line_def duplicates_def paper_def str_nat.simps digit_char_def)
  with r(1) demo_index inst show ?thesis by blast
qed

text \<open>
  Claim C3. Given the title index and the schema, the creation calls of a run are those
  of the items whose title is not in the index, one call per such item and in input order,
  so an item whose title is in the index is not submitted, and an item that occurs twice
  with a title not in the index is submitted twice: the index is the one built before the
  loop. The skip count logged at the end is the number of items whose title is in the
  index. With the remote title "Paper A" and the items "Paper A" and "Paper B", the only
  creation call is that of "Paper B" and the log ends with pushed=1, skipped=1.
\<close>

theorem push_to_notion_skips_existing:
  "(get_existing_notion_titles srv tok db st = Some (Inr ex, st1) \<longrightarrow>
    get_database_properties srv tok db st1 = (Inr types, st2) \<longrightarrow>
    (\<exists>st3 pushed.
       push_to_notion srv items tok db st = Some (Inr None, st3)
       \<and> map fst (calls_since st2 st3) =
           map (\<lambda>it. Create_Page tok db (page_properties (doi_type_of types) it))
             (filter (\<lambda>it. Some (title it) \<notin> ex) items)
       \<and> last (log st3) =
           finished_line pushed (length (filter (\<lambda>it. Some (title it) \<in> ex) items))))
   \<and> push_to_notion demo_remote [paper ''Paper A'', paper ''Paper B''] ''secret'' ''db1'' init_run =
     Some (Inr None,
           \<lparr>log = [''Found 1 existing titles in Notion.'', ''DOI property type: url'',
                   ''Skipping existing item: Paper A'', ''Pushed: Paper B'',
                   ''Finished. pushed=1, skipped=1''],
            sent = [(Query_Database ''secret'' ''db1'' None, True),
                    (Retrieve_Database ''secret'' ''db1'', True),
                    (Create_Page ''secret'' ''db1''
                       [(''Title'', Title_Value ''Paper B''),
                        (''Authors'', Rich_Text_Value ''Unknown'')], True)]\<rparr>)"
proof -
  have "\<exists>st3 pushed.
       push_to_notion srv items tok db st = Some (Inr None, st3)
       \<and> map fst (calls_since st2 st3) =
           map (\<lambda>it. Create_Page tok db (page_properties (doi_type_of types) it))
             (filter (\<lambda>it. Some (title it) \<notin> ex) items)
       \<and> last (log st3) =
           finished_line pushed (length (filter (\<lambda>it. Some (title it) \<in> ex) items))"
    if idx: "get_existing_notion_titles srv tok db st = Some (Inr ex, st1)"
      and sch: "get_database_properties srv tok db st1 = (Inr types, st2)"
  proof -
    from push_to_notion_run [OF idx sch, of items] obtain st3 more where r:
      "push_to_notion srv items tok db st = Some (Inr None, st3)"
      "calls_since st2 st3 =
         map (\<lambda>(it, a). (Create_Page tok db (page_properties (doi_type_of types) it), \<not> isl a))
           (zip (new_items ex items)
                (answers srv (doi_type_of types) (length (sent st2)) (new_items ex items)))"
      "log st3 = log st2 @ [''DOI property type: '' @ doi_type_of types] @ more
         @ [finished_line
              (length (filter (\<lambda>a. \<not> isl a)
                 (answers srv (doi_type_of types) (length (sent st2)) (new_items ex items))))
              (length (duplicates ex items))]"
      by blast
    have "map fst (calls_since st2 st3) =
           map (\<lambda>it. Create_Page tok db (page_properties (doi_type_of types) it))
             (new_items ex items)"
      unfolding r(2) by (rule requests_of_calls) (simp add: zip_answers_length)
    with r(1,3) show ?thesis
      unfolding new_items_def duplicates_def by auto
  qed
  with demo_run show ?thesis by blast
qed

lemma demo_run_twice:
  "push_to_notion demo_remote [paper ''Paper A'', paper ''Paper B'', paper ''Paper B'']
     ''secret'' ''db1'' init_run =
     Some (Inr None,
           \<lparr>log = [''Found 1 existing titles in Notion.'', ''DOI property type: url'',
                   ''Skipping existing item: Paper A'', ''Pushed: Paper B'', ''Pushed: Paper B'',
                   ''Finished. pushed=2, skipped=1''],
            sent = [(Query_Database ''secret'' ''db1'' None, True),
                    (Retrieve_Database ''secret'' ''db1'', True),
                    (Create_Page ''secret'' ''db1''
                       [(''Title'', Title_Value ''Paper B''),
                        (''Authors'', Rich_Text_Value ''Unknown'')], True),
                    (Create_Page ''secret'' ''db1''
                       [(''Title'', Title_Value ''Paper B''),
                        (''Authors'', Rich_Text_Value ''Unknown'')], True)]\<rparr>)"
  by (simp add: run_eval)

theorem push_to_notion_skips_existing_witness:
  "get_existing_notion_titles demo_remote ''secret'' ''db1'' init_run =
     Some (Inr {Some ''Paper A''},
           \<lparr>log = [''Found 1 existing titles in Notion.''],
            sent = [(Query_Database ''secret'' ''db1'' None, True)]\<rparr>)
   \<and> (\<exists>st3. push_to_notion demo_remote [paper ''Paper A'', paper ''Paper B'', paper ''Paper B'']
               ''secret'' ''db1'' init_run = Some (Inr None, st3)
         \<and> map fst (calls_since
                \<lparr>log = [''Found 1 existing titles in Notion.''],
                 sent = [(Query_Database ''secret'' ''db1'' None, True),
                         (Retrieve_Database ''secret'' ''db1'', True)]\<rparr> st3) =
             [Create_Page ''secret'' ''db1''
                [(''Title'', Title_Value ''Paper B''), (''Authors'', Rich_Text_Value ''Unknown'')],
              Create_Page ''secret'' ''db1''
                [(''Title'', Title_Value ''Paper B''), (''Authors'', Rich_Text_Value ''Unknown'')]]
         \<and> last (log st3) = ''Finished. pushed=2, skipped=1'')"
proof -
  let ?items = "[paper ''Paper A'', paper ''Paper B'', paper ''Paper B'']"
  let ?st2 = "\<lparr>log = [''Found 1 existing titles in Notion.''],
       sent = [(Query_Database ''secret'' ''db1'' None, True),
               (Retrieve_Database ''secret'' ''db1'', True)]\<rparr>"
  from push_to_notion_skips_existing [of demo_remote "''secret''" "''db1''" init_run _ _ _ _ ?items]
    demo_index demo_schema
  obtain st3 pushed where r:
    "push_to_notion demo_remote ?items ''secret'' ''db1'' init_run = Some (Inr None, st3)"
    "map fst (calls_since ?st2 st3) =
           map (\<lambda>it. Create_Page ''secret'' ''db1''
                  (page_properties (doi_type_of [''DOI'' \<mapsto> ''url'']) it))
             (filter (\<lambda>it. Some (title it) \<notin> {Some ''Paper A''}) ?items)"
    by blast
  from r(2) have "map fst (calls_since ?st2 st3) =
             [Create_Page ''secret'' ''db1''
                [(''Title'', Title_Value ''Paper B''), (''Authors'', Rich_Text_Value ''Unknown'')],
              Create_Page ''secret'' ''db1''
                [(''Title'', Title_Value ''Paper B''), (''Authors'', Rich_Text_Value ''Unknown'')]]"
    by (simp add: spec_eval run_eval)
  moreover from r(1) have "last (log st3) = ''Finished. pushed=2, skipped=1''"
    by (auto simp: demo_run_twice)
  ultimately show ?thesis using r(1) demo_index
    by (intro conjI exI [of _ st3]) simp_all
qed

section \<open>Submission failures\<close>

lemma flaky_index:
  "get_existing_notion_titles flaky_remote ''secret'' ''db1'' init_run =
     Some (Inr {Some ''Paper A''},
           \<lparr>log = [''Found 1 existing titles in Notion.''],
            sent = [(Query_Database ''secret'' ''db1'' None, True)]\<rparr>)"
  by (simp add: run_eval)

lemma flaky_schema:
  "get_database_properties flaky_remote ''secret'' ''db1''
     \<lparr>log = [''Found 1 existing titles in Notion.''],
      sent = [(Query_Database ''secret'' ''db1'' None, True)]\<rparr> =
     (Inr [''DOI'' \<mapsto> ''url''],
      \<lparr>log = [''Found 1 existing titles in Notion.''],
       sent = [(Query_Database ''secret'' ''db1'' None, True),
               (Retrieve_Database ''secret'' ''db1'', True)]\<rparr>)"
  by (simp add: run_eval)

lemma flaky_run:
  "push_to_notion flaky_remote [paper ''Paper A'', paper ''Paper B'', paper ''Paper C'']
     ''secret'' ''db1'' init_run =
     Some (Inr None,
           \<lparr>log = [''Found 1 existing titles in Notion.'', ''DOI property type: url'',
                   ''Skipping existing item: Paper A'',
                   ''Failed to push '' @ [CHR 39] @ ''Paper B'' @ [CHR 39] @ '': 503 Server Error'',
                   ''   Reason: unavailable'', ''Pushed: Paper C'',
                   ''Finished. pushed=1, skipped=1''],
            sent = [(Query_Database ''secret'' ''db1'' None, True),
                    (Retrieve_Database ''secret'' ''db1'', True),
                    (Create_Page ''secret'' ''db1''
                       [(''Title'', Title_Value ''Paper B''),
                        (''Authors'', Rich_Text_Value ''Unknown'')], False),
                    (Create_Page ''secret'' ''db1''
                       [(''Title'', Title_Value ''Paper C''),
                        (''Authors'', Rich_Text_Value ''Unknown'')], True)]\<rparr>)"
  by (simp add: run_eval)

text \<open>
  Claim C4. Given the title index and the schema, the run returns whatever creation
  calls fail: every item whose title is not in the index gets its creation call, in
  order; a failed call adds to neither count and its failure is logged, with the text of
  the remote response when the exception carries one; and the two counts logged at the
  end and the number of failed calls add up to the number of items.
\<close>

theorem push_to_notion_continues_after_failure:
  assumes "get_existing_notion_titles srv tok db st = Some (Inr ex, st1)"
      and "get_database_properties srv tok db st1 = (Inr types, st2)"
  shows "\<exists>st3.
     push_to_notion srv items tok db st = Some (Inr None, st3)
     \<and> map fst (calls_since st2 st3) =
         map (\<lambda>it. Create_Page tok db (page_properties (doi_type_of types) it))
           (new_items ex items)
     \<and> last (log st3) =
         finished_line (length (filter snd (calls_since st2 st3))) (length (duplicates ex items))
     \<and> length (filter snd (calls_since st2 st3)) + length (duplicates ex items)
         + length (filter (\<lambda>call. \<not> snd call) (calls_since st2 st3)) = length items
     \<and> length (filter snd (calls_since st2 st3)) + length (duplicates ex items) \<le> length items
     \<and> (\<forall>(it, a) \<in> set (zip (new_items ex items)
                 (answers srv (doi_type_of types) (length (sent st2)) (new_items ex items))).
           \<forall>e. a = Inl e \<longrightarrow>
             (''Failed to push '' @ [CHR 39] @ title it @ [CHR 39] @ '': '' @ message e)
               \<in> set (log st3)
             \<and> (\<forall>txt. response_text e = Some txt \<longrightarrow> (''   Reason: '' @ txt) \<in> set (log st3)))"
proof -
  let ?new = "new_items ex items"
  let ?ans = "answers srv (doi_type_of types) (length (sent st2)) ?new"
  from push_to_notion_run [OF assms, of items] obtain st3 more where r:
    "push_to_notion srv items tok db st = Some (Inr None, st3)"
    "calls_since st2 st3 =
       map (\<lambda>(it, a). (Create_Page tok db (page_properties (doi_type_of types) it), \<not> isl a))
         (zip ?new ?ans)"
    "log st3 = log st2 @ [''DOI property type: '' @ doi_type_of types] @ more
       @ [finished_line (length (filter (\<lambda>a. \<not> isl a) ?ans)) (length (duplicates ex items))]"
    "\<forall>(it, a) \<in> set (zip ?new ?ans). set (outcome_lines it a) \<subseteq> set more"
    by blast
  have len: "length ?new = length ?ans" by (simp add: zip_answers_length)
  have ok: "length (filter snd (calls_since st2 st3)) = length (filter (\<lambda>a. \<not> isl a) ?ans)"
    unfolding r(2) using len by (rule count_ok_calls)
  have bad: "length (filter (\<lambda>call. \<not> snd call) (calls_since st2 st3)) = length (filter isl ?ans)"
    unfolding r(2) using len by (rule count_failed_calls)
  have reqs: "map fst (calls_since st2 st3) =
         map (\<lambda>it. Create_Page tok db (page_properties (doi_type_of types) it)) ?new"
    unfolding r(2) using len by (rule requests_of_calls)
  have "length (filter (\<lambda>a. \<not> isl a) ?ans) + length (filter isl ?ans) = length ?new"
    using filter_partition_length [of "\<lambda>a. \<not> isl a" ?ans] len by simp
  moreover have "length (duplicates ex items) + length ?new = length items"
    using filter_partition_length [of "\<lambda>it. Some (title it) \<in> ex" items]
    by (simp add: new_items_def duplicates_def)
  ultimately have total:
    "length (filter snd (calls_since st2 st3)) + length (duplicates ex items)
       + length (filter (\<lambda>call. \<not> snd call) (calls_since st2 st3)) = length items"
    using ok bad by simp
  have logged: "\<forall>(it, a) \<in> set (zip ?new ?ans).
           \<forall>e. a = Inl e \<longrightarrow>
             (''Failed to push '' @ [CHR 39] @ title it @ [CHR 39] @ '': '' @ message e)
               \<in> set (log st3)
             \<and> (\<forall>txt. response_text e = Some txt \<longrightarrow> (''   Reason: '' @ txt) \<in> set (log st3))"
  proof (clarify, intro conjI allI impI)
    fix it e
    assume m: "(it, Inl e) \<in> set (zip ?new ?ans)"
    with r(4) have "set (outcome_lines it (Inl e)) \<subseteq> set more" by blast
    then have sub: "set (failure_lines it e) \<subseteq> set more"
      by (simp add: outcome_lines_def)
    have inlog: "set more \<subseteq> set (log st3)" unfolding r(3) by auto
    show "(''Failed to push '' @ [CHR 39] @ title it @ [CHR 39] @ '': '' @ message e)
               \<in> set (log st3)"
      using sub inlog by (auto simp: failure_lines_def)
    fix reason assume "response_text e = Some reason"
    then show "(''   Reason: '' @ reason) \<in> set (log st3)"
      using sub inlog by (auto simp: failure_lines_def)
  qed
  have fin: "last (log st3) =
         finished_line (length (filter snd (calls_since st2 st3))) (length (duplicates ex items))"
    unfolding r(3) ok by simp
  from total have le: "length (filter snd (calls_since st2 st3)) + length (duplicates ex items)
      \<le> length items" by linarith
  from r(1) reqs fin total le logged show ?thesis by blast
qed

theorem push_to_notion_continues_after_failure_witness:
  "get_existing_notion_titles flaky_remote ''secret'' ''db1'' init_run =
     Some (Inr {Some ''Paper A''},
           \<lparr>log = [''Found 1 existing titles in Notion.''],
            sent = [(Query_Database ''secret'' ''db1'' None, True)]\<rparr>)
   \<and> answers flaky_remote ''url'' 2 [paper ''Paper B'', paper ''Paper C''] =
       [Inl \<lparr>message = ''503 Server Error'', response_text = Some ''unavailable''\<rparr>, Inr ()]
   \<and> (\<exists>st3. push_to_notion flaky_remote [paper ''Paper A'', paper ''Paper B'', paper ''Paper C'']
               ''secret'' ''db1'' init_run = Some (Inr None, st3)
         \<and> map fst (calls_since
                \<lparr>log = [''Found 1 existing titles in Notion.''],
                 sent = [(Query_Database ''secret'' ''db1'' None, True),
                         (Retrieve_Database ''secret'' ''db1'', True)]\<rparr> st3) =
             [Create_Page ''secret'' ''db1''
                [(''Title'', Title_Value ''Paper B''), (''Authors'', Rich_Text_Value ''Unknown'')],
              Create_Page ''secret'' ''db1''
                [(''Title'', Title_Value ''Paper C''), (''Authors'', Rich_Text_Value ''Unknown'')]]
         \<and> last (log st3) = ''Finished. pushed=1, skipped=1''
         \<and> (''Failed to push '' @ [CHR 39] @ ''Paper B'' @ [CHR 39] @ '': 503 Server Error'')
              \<in> set (log st3)
         \<and> ''   Reason: unavailable'' \<in> set (log st3))"
proof -
  let ?items = "[paper ''Paper A'', paper ''Paper B'', paper ''Paper C'']"
  let ?st2 = "\<lparr>log = [''Found 1 existing titles in Notion.''],
       sent = [(Query_Database ''secret'' ''db1'' None, True),
               (Retrieve_Database ''secret'' ''db1'', True)]\<rparr>"
  let ?e = "\<lparr>message = ''503 Server Error'', response_text = Some ''unavailable''\<rparr>"
  have new: "new_items {Some ''Paper A''} ?items = [paper ''Paper B'', paper ''Paper C'']"
    by (simp add: new_items_def paper_def)
  have ty: "doi_type_of [''DOI'' \<mapsto> ''url''] = ''url''"
    by (simp add: doi_type_of_def)
  have ans: "answers flaky_remote ''url'' 2 [paper ''Paper B'', paper ''Paper C''] = [Inl ?e, Inr ()]"
    by (simp add: answers_def flaky_remote_def demo_remote_def enumerate_simps numeral_2_eq_2)
  have ans': "answers flaky_remote ''url'' (length (sent ?st2))
      [paper ''Paper B'', paper ''Paper C''] = [Inl ?e, Inr ()]"
    by (simp add: answers_def flaky_remote_def demo_remote_def enumerate_simps)
  from push_to_notion_continues_after_failure [OF flaky_index flaky_schema, of ?items]
  obtain st3 where r:
    "push_to_notion flaky_remote ?items ''secret'' ''db1'' init_run = Some (Inr None, st3)"
    "map fst (calls_since ?st2 st3) =
         map (\<lambda>it. Create_Page ''secret'' ''db1''
                (page_properties (doi_type_of [''DOI'' \<mapsto> ''url'']) it))
           (new_items {Some ''Paper A''} ?items)"
    "\<forall>(it, a) \<in> set (zip (new_items {Some ''Paper A''} ?items)
                 (answers flaky_remote (doi_type_of [''DOI'' \<mapsto> ''url'']) (length (sent ?st2))
                    (new_items {Some ''Paper A''} ?items))).
           \<forall>e. a = Inl e \<longrightarrow>
             (''Failed to push '' @ [CHR 39] @ title it @ [CHR 39] @ '': '' @ message e)
               \<in> set (log st3)
             \<and> (\<forall>txt. response_text e = Some txt \<longrightarrow> (''   Reason: '' @ txt) \<in> set (log st3))"
    by blast
  from r(3) have
    "(''Failed to push '' @ [CHR 39] @ title (paper ''Paper B'') @ [CHR 39] @ '': '' @ message ?e)
        \<in> set (log st3)
     \<and> (\<forall>txt. response_text ?e = Some txt \<longrightarrow> (''   Reason: '' @ txt) \<in> set (log st3))"
    unfolding new ty ans' by simp
  then have f: "(''Failed to push '' @ [CHR 39] @ ''Paper B'' @ [CHR 39] @ '': 503 Server Error'')
              \<in> set (log st3)" "''   Reason: unavailable'' \<in> set (log st3)"
    by (simp_all add: paper_def)
  from r(2) have c: "map fst (calls_since ?st2 st3) =
             [Create_Page ''secret'' ''db1''
                [(''Title'', Title_Value ''Paper B''), (''Authors'', Rich_Text_Value ''Unknown'')],
              Create_Page ''secret'' ''db1''
                [(''Title'', Title_Value ''Paper C''), (''Authors'', Rich_Text_Value ''Unknown'')]]"
    by (simp add: spec_eval run_eval)
  from r(1) have l: "last (log st3) = ''Finished. pushed=1, skipped=1''"
    by (auto simp: flaky_run)
  from flaky_index ans r(1) c l f show ?thesis
    by (intro conjI exI [of _ st3]) simp_all
qed

section \<open>Failures of the title index and of the schema\<close>

lemma no_create_since:
  assumes "sent st' = sent st @ calls" "\<forall>call \<in> set calls. \<not> is_create call"
  shows "filter is_create (calls_since st st') = []"
  using assms by (simp add: calls_since_append filter_empty_conv)

text \<open>
  Claim C8. A failed page fetch, at any point of the pagination and whatever titles were
  collected before, makes the index builder raise the exception, so a title index is
  returned only when every fetch succeeded. When the index builder raises, the sync raises
  the same exception, and when the schema fetch fails the sync raises that exception; in
  both cases no creation call has been sent.
\<close>

theorem index_or_schema_failure_aborts:
  "(query_response srv (length (sent st)) (start_cursor c) = Inl e \<longrightarrow>
      fetch_pages srv tok db c acc st =
        Some (Inl (RequestException e),
              logger (''Failed to fetch existing pages from Notion: '' @ message e)
                (record_call (Query_Database tok db (start_cursor c)) False st)))
   \<and> (get_existing_notion_titles srv1 tok db st1 = Some (Inl x, st1') \<longrightarrow>
        push_to_notion srv1 items tok db st1 = Some (Inl x, st1')
        \<and> filter is_create (calls_since st1 st1') = [])
   \<and> (get_existing_notion_titles srv2 tok db st2 = Some (Inr ex, st2') \<longrightarrow>
        (\<forall>call \<in> set (calls_since st2 st2'). snd call)
        \<and> (schema_response srv2 (length (sent st2')) = Inl e2 \<longrightarrow>
             (\<exists>st3. push_to_notion srv2 items tok db st2 = Some (Inl (RequestException e2), st3)
                \<and> filter is_create (calls_since st2 st3) = [])))"
proof -
  have 2: "push_to_notion srv1 items tok db st1 = Some (Inl x, st1')
        \<and> filter is_create (calls_since st1 st1') = []"
    if idx: "get_existing_notion_titles srv1 tok db st1 = Some (Inl x, st1')"
  proof -
    from get_existing_calls [OF idx] obtain calls where
      "sent st1' = sent st1 @ calls" "\<forall>call \<in> set calls. \<not> is_create call"
      by blast
    then have "filter is_create (calls_since st1 st1') = []" by (rule no_create_since)
    with push_to_notion_index_error [OF idx] show ?thesis by simp
  qed
  have 3: "(\<forall>call \<in> set (calls_since st2 st2'). snd call)
        \<and> (schema_response srv2 (length (sent st2')) = Inl e2 \<longrightarrow>
             (\<exists>st3. push_to_notion srv2 items tok db st2 = Some (Inl (RequestException e2), st3)
                \<and> filter is_create (calls_since st2 st3) = []))"
    if idx: "get_existing_notion_titles srv2 tok db st2 = Some (Inr ex, st2')"
  proof -
    from get_existing_calls [OF idx]
    have "\<exists>calls. sent st2' = sent st2 @ calls \<and> (\<forall>call \<in> set calls. \<not> is_create call)
            \<and> (\<forall>call \<in> set calls. snd call)"
      by simp
    then obtain calls where c:
      "sent st2' = sent st2 @ calls" "\<forall>call \<in> set calls. \<not> is_create call"
      and ok: "\<forall>call \<in> set calls. snd call"
      by (elim exE conjE)
    from c(1) have cs: "calls_since st2 st2' = calls" by (rule calls_since_append)
    have a: "\<forall>call \<in> set (calls_since st2 st2'). snd call"
      unfolding cs by (rule ok)
    have b: "schema_response srv2 (length (sent st2')) = Inl e2 \<longrightarrow>
        (\<exists>st3. push_to_notion srv2 items tok db st2 = Some (Inl (RequestException e2), st3)
                \<and> filter is_create (calls_since st2 st3) = [])"
    proof
      assume sch: "schema_response srv2 (length (sent st2')) = Inl e2"
      define st3 where "st3 = logger (''Could not fetch database schema: '' @ message e2)
               (record_call (Retrieve_Database tok db) False st2')"
      have "sent st3 = sent st2' @ [(Retrieve_Database tok db, False)]"
        by (simp add: st3_def logger_def record_call_def)
      then have s3: "sent st3 = sent st2 @ (calls @ [(Retrieve_Database tok db, False)])"
        unfolding c(1) by simp
      have nc: "\<forall>call \<in> set (calls @ [(Retrieve_Database tok db, False)]). \<not> is_create call"
        using c(2) by simp
      from s3 nc have f: "filter is_create (calls_since st2 st3) = []" by (rule no_create_since)
      have p: "push_to_notion srv2 items tok db st2 = Some (Inl (RequestException e2), st3)"
        unfolding st3_def by (rule push_to_notion_schema_error [OF idx sch])
      from p f show "\<exists>st3. push_to_notion srv2 items tok db st2 = Some (Inl (RequestException e2), st3)
                \<and> filter is_create (calls_since st2 st3) = []"
        by (intro exI [of _ st3] conjI)
    qed
    from a b show ?thesis by (rule conjI)
  qed
  show ?thesis
  proof (intro conjI impI)
    assume "query_response srv (length (sent st)) (start_cursor c) = Inl e"
    then show "fetch_pages srv tok db c acc st =
        Some (Inl (RequestException e),
              logger (''Failed to fetch existing pages from Notion: '' @ message e)
                (record_call (Query_Database tok db (start_cursor c)) False st))"
      by (rule fetch_pages_fails)
  next
    assume a: "get_existing_notion_titles srv1 tok db st1 = Some (Inl x, st1')"
    from 2 [OF a] show "push_to_notion srv1 items tok db st1 = Some (Inl x, st1')"
      by (rule conjunct1)
    from 2 [OF a] show "filter is_create (calls_since st1 st1') = []"
      by (rule conjunct2)
  next
    assume a: "get_existing_notion_titles srv2 tok db st2 = Some (Inr ex, st2')"
    from 3 [OF a] show "\<forall>call \<in> set (calls_since st2 st2'). snd call"
      by (rule conjunct1)
    assume b: "schema_response srv2 (length (sent st2')) = Inl e2"
    from 3 [OF a] b show "\<exists>st3. push_to_notion srv2 items tok db st2 = Some (Inl (RequestException e2), st3)
                \<and> filter is_create (calls_since st2 st3) = []"
      by (elim conjE impE) assumption+
  qed
qed

lemma broken_pages_index:
  "get_existing_notion_titles broken_pages_remote ''secret'' ''db1'' init_run =
     Some (Inl (RequestException \<lparr>message = ''Read timed out'', response_text = None\<rparr>),
           \<lparr>log = [''Failed to fetch existing pages from Notion: Read timed out''],
            sent = [(Query_Database ''secret'' ''db1'' None, True),
                    (Query_Database ''secret'' ''db1'' (Some ''c2''), False)]\<rparr>)"
  by (simp add: run_eval)

lemma no_schema_index:
  "get_existing_notion_titles no_schema_remote ''secret'' ''db1'' init_run =
     Some (Inr {Some ''Paper A''},
           \<lparr>log = [''Found 1 existing titles in Notion.''],
            sent = [(Query_Database ''secret'' ''db1'' None, True)]\<rparr>)"
  by (simp add: run_eval)

theorem index_or_schema_failure_aborts_witness:
  "query_response broken_pages_remote 1 (start_cursor (Some ''c2'')) =
     Inl \<lparr>message = ''Read timed out'', response_text = None\<rparr>
   \<and> fetch_pages broken_pages_remote ''secret'' ''db1'' (Some ''c2'') {Some ''Paper B''}
        \<lparr>log = [], sent = [(Query_Database ''secret'' ''db1'' None, True)]\<rparr> =
       Some (Inl (RequestException \<lparr>message = ''Read timed out'', response_text = None\<rparr>),
             \<lparr>log = [''Failed to fetch existing pages from Notion: Read timed out''],
              sent = [(Query_Database ''secret'' ''db1'' None, True),
                      (Query_Database ''secret'' ''db1'' (Some ''c2''), False)]\<rparr>)
   \<and> push_to_notion broken_pages_remote [paper ''Paper C''] ''secret'' ''db1'' init_run =
       Some (Inl (RequestException \<lparr>message = ''Read timed out'', response_text = None\<rparr>),
             \<lparr>log = [''Failed to fetch existing pages from Notion: Read timed out''],
              sent = [(Query_Database ''secret'' ''db1'' None, True),
                      (Query_Database ''secret'' ''db1'' (Some ''c2''), False)]\<rparr>)
   \<and> schema_response no_schema_remote 1 =
       Inl \<lparr>message = ''404 Client Error'', response_text = Some ''not found''\<rparr>
   \<and> (\<exists>st3. push_to_notion no_schema_remote [paper ''Paper C''] ''secret'' ''db1'' init_run =
           Some (Inl (RequestException
                        \<lparr>message = ''404 Client Error'', response_text = Some ''not found''\<rparr>), st3)
         \<and> filter is_create (calls_since init_run st3) = [])"
proof -
  let ?timeout = "\<lparr>message = ''Read timed out'', response_text = None\<rparr>"
  let ?missing = "\<lparr>message = ''404 Client Error'', response_text = Some ''not found''\<rparr>"
  let ?st = "\<lparr>log = [], sent = [(Query_Database ''secret'' ''db1'' None, True)]\<rparr>"
  let ?st1' = "\<lparr>log = [''Failed to fetch existing pages from Notion: Read timed out''],
              sent = [(Query_Database ''secret'' ''db1'' None, True),
                      (Query_Database ''secret'' ''db1'' (Some ''c2''), False)]\<rparr>"
  let ?st2' = "\<lparr>log = [''Found 1 existing titles in Notion.''],
            sent = [(Query_Database ''secret'' ''db1'' None, True)]\<rparr>"
  have q: "query_response broken_pages_remote (length (sent ?st)) (start_cursor (Some ''c2'')) =
     Inl ?timeout"
    by (simp add: broken_pages_remote_def demo_remote_def start_cursor_def truthy_def)
  have s: "schema_response no_schema_remote (length (sent ?st2')) = Inl ?missing"
    by (simp add: no_schema_remote_def demo_remote_def)
  note inst = index_or_schema_failure_aborts [of broken_pages_remote ?st "Some ''c2''" ?timeout
      "''secret''" "''db1''" "{Some ''Paper B''}" broken_pages_remote init_run
      "RequestException ?timeout" ?st1' "[paper ''Paper C'']" no_schema_remote init_run
      "{Some ''Paper A''}" ?st2' ?missing]
  note i1 = inst [THEN conjunct1]
    and i2 = inst [THEN conjunct2, THEN conjunct1]
    and i3 = inst [THEN conjunct2, THEN conjunct2]
  from i1 [THEN mp, OF q]
  have a: "fetch_pages broken_pages_remote ''secret'' ''db1'' (Some ''c2'')
      {Some ''Paper B''} ?st = Some (Inl (RequestException ?timeout), ?st1')"
    by (simp add: logger_def record_call_def start_cursor_def truthy_def)
  from i2 [THEN mp, OF broken_pages_index, THEN conjunct1] have b:
    "push_to_notion broken_pages_remote [paper ''Paper C''] ''secret'' ''db1'' init_run =
       Some (Inl (RequestException ?timeout), ?st1')" .
  from i3 [THEN mp, OF no_schema_index, THEN conjunct2, THEN mp, OF s] have c:
    "\<exists>st3. push_to_notion no_schema_remote [paper ''Paper C''] ''secret'' ''db1'' init_run =
           Some (Inl (RequestException ?missing), st3)
         \<and> filter is_create (calls_since init_run st3) = []" .
  have q1: "query_response broken_pages_remote 1 (start_cursor (Some ''c2'')) = Inl ?timeout"
    using q by simp
  have s1: "schema_response no_schema_remote 1 = Inl ?missing"
    using s by simp
  from q1 a b s1 c show ?thesis by (intro conjI)
qed

section \<open>The DOI field\<close>






lemma request_doi_calls:
  "length xs = length ys \<Longrightarrow>
     map (\<lambda>call. request_doi (fst call))
       (map (\<lambda>(it, a). (Create_Page tok db (page_properties dt it), \<not> isl a)) (zip xs ys))
     = map (\<lambda>it. map_of (page_properties dt it) ''DOI'') xs"
  by (induction xs ys rule: list_induct2) auto

lemma prefix_run:
  "push_to_notion demo_remote
     [\<lparr>title = ''T'', authors = [], date = Some [], doi = Some '' httpfoo/10.1 ''\<rparr>,
      \<lparr>title = ''Paper A'', authors = [], date = Some [], doi = Some ''10.5/a''\<rparr>,
      \<lparr>title = ''U'', authors = [], date = Some [], doi = Some ''HTTP://x.org/1''\<rparr>,
      \<lparr>title = ''V'', authors = [], date = Some [], doi = Some ''  ''\<rparr>]
     ''secret'' ''db1'' init_run =
     Some (Inr None,
           \<lparr>log = [''Found 1 existing titles in Notion.'', ''DOI property type: url'',
                   ''Pushed: T'', ''Skipping existing item: Paper A'', ''Pushed: U'', ''Pushed: V'',
                   ''Finished. pushed=3, skipped=1''],
            sent = [(Query_Database ''secret'' ''db1'' None, True),
                    (Retrieve_Database ''secret'' ''db1'', True),
                    (Create_Page ''secret'' ''db1''
                       [(''Title'', Title_Value ''T''), (''Authors'', Rich_Text_Value ''Unknown''),
                        (''DOI'', Url_Value ''httpfoo/10.1'')], True),
                    (Create_Page ''secret'' ''db1''
                       [(''Title'', Title_Value ''U''), (''Authors'', Rich_Text_Value ''Unknown''),
                        (''DOI'', Url_Value ''https://doi.org/HTTP://x.org/1'')], True),
                    (Create_Page ''secret'' ''db1''
                       [(''Title'', Title_Value ''V''), (''Authors'', Rich_Text_Value ''Unknown'')],
                     True)]\<rparr>)"
  by (simp add: run_eval)

text \<open>
  Claim C9. The test for an absolute URL is a test of the first four characters of the
  stripped DOI. In a run that has its title index and schema, the creation call sent for
  an item whose stripped DOI is not empty carries, as its DOI property, the stripped DOI as
  it is when its first four characters are \<^verbatim>\<open>http\<close>, also when it is no URL at all, as
  with \<^verbatim>\<open>httpfoo/10.1\<close>, and \<^verbatim>\<open>https://doi.org/\<close> followed by the stripped DOI in every
  other case; the call for an item whose stripped DOI is empty carries no DOI property.
\<close>

theorem doi_prefix_check:
  "(get_existing_notion_titles srv tok db st = Some (Inr ex, st1) \<longrightarrow>
    get_database_properties srv tok db st1 = (Inr types, st2) \<longrightarrow>
    (\<exists>st3. push_to_notion srv items tok db st = Some (Inr None, st3)
       \<and> map (\<lambda>call. request_doi (fst call)) (calls_since st2 st3) =
           map (\<lambda>it. if stripped_doi it = [] then None
                      else Some (encode_doi (doi_type_of types)
                             (if take 4 (stripped_doi it) = ''http'' then stripped_doi it
                              else ''https://doi.org/'' @ stripped_doi it)))
             (new_items ex items)))
   \<and> (stripped_doi it \<noteq> [] \<longrightarrow> take 4 (stripped_doi it) = ''http'' \<longrightarrow>
      map_of (page_properties doi_type it) ''DOI'' = Some (encode_doi doi_type (stripped_doi it)))
   \<and> (stripped_doi it' \<noteq> [] \<longrightarrow> take 4 (stripped_doi it') \<noteq> ''http'' \<longrightarrow>
      map_of (page_properties doi_type it') ''DOI'' =
        Some (encode_doi doi_type (''https://doi.org/'' @ stripped_doi it')))
   \<and> py_startswith v ''http'' = (take 4 v = ''http'')
   \<and> (doi_url_of v = ''https://doi.org/'' @ v) = (\<not> py_startswith v ''http'')
   \<and> map_of (page_properties ''url''
               \<lparr>title = ''T'', authors = [], date = Some [], doi = Some ''httpfoo/10.1''\<rparr>) ''DOI''
        = Some (Url_Value ''httpfoo/10.1'')"
proof -
  have l: "length ''http'' = 4" by simp
  have p: "py_startswith v ''http'' = (take 4 v = ''http'')" for v
    unfolding py_startswith_def l ..
  have f: "map_of (page_properties dt x) ''DOI'' =
     (if stripped_doi x = [] then None
      else Some (encode_doi dt
             (if take 4 (stripped_doi x) = ''http'' then stripped_doi x
              else ''https://doi.org/'' @ stripped_doi x)))" for x dt
    unfolding page_properties_def doi_field doi_url_of_def p ..
  have 0: "\<exists>st3. push_to_notion srv items tok db st = Some (Inr None, st3)
       \<and> map (\<lambda>call. request_doi (fst call)) (calls_since st2 st3) =
           map (\<lambda>it. if stripped_doi it = [] then None
                      else Some (encode_doi (doi_type_of types)
                             (if take 4 (stripped_doi it) = ''http'' then stripped_doi it
                              else ''https://doi.org/'' @ stripped_doi it)))
             (new_items ex items)"
    if idx: "get_existing_notion_titles srv tok db st = Some (Inr ex, st1)"
      and sch: "get_database_properties srv tok db st1 = (Inr types, st2)"
  proof -
    from push_to_notion_run [OF idx sch, of items] obtain st3 more where r:
      "push_to_notion srv items tok db st = Some (Inr None, st3)"
      "calls_since st2 st3 =
         map (\<lambda>(it, a). (Create_Page tok db (page_properties (doi_type_of types) it), \<not> isl a))
           (zip (new_items ex items)
                (answers srv (doi_type_of types) (length (sent st2)) (new_items ex items)))"
      by (elim exE conjE)
    have "map (\<lambda>call. request_doi (fst call)) (calls_since st2 st3) =
           map (\<lambda>it. map_of (page_properties (doi_type_of types) it) ''DOI'') (new_items ex items)"
      unfolding r(2) by (rule request_doi_calls) (simp add: zip_answers_length)
    then have "map (\<lambda>call. request_doi (fst call)) (calls_since st2 st3) =
           map (\<lambda>it. if stripped_doi it = [] then None
                      else Some (encode_doi (doi_type_of types)
                             (if take 4 (stripped_doi it) = ''http'' then stripped_doi it
                              else ''https://doi.org/'' @ stripped_doi it)))
             (new_items ex items)"
      unfolding f .
    with r(1) show ?thesis by (intro exI [of _ st3] conjI)
  qed
  have 1: "stripped_doi it \<noteq> [] \<longrightarrow> take 4 (stripped_doi it) = ''http'' \<longrightarrow>
      map_of (page_properties doi_type it) ''DOI'' = Some (encode_doi doi_type (stripped_doi it))"
    by (simp add: f)
  have 2: "stripped_doi it' \<noteq> [] \<longrightarrow> take 4 (stripped_doi it') \<noteq> ''http'' \<longrightarrow>
      map_of (page_properties doi_type it') ''DOI'' =
        Some (encode_doi doi_type (''https://doi.org/'' @ stripped_doi it'))"
    by (simp add: f)
  have 3: "(doi_url_of v = ''https://doi.org/'' @ v) = (\<not> py_startswith v ''http'')"
    by (simp add: doi_url_of_def)
  have 4: "map_of (page_properties ''url''
               \<lparr>title = ''T'', authors = [], date = Some [], doi = Some ''httpfoo/10.1''\<rparr>) ''DOI''
        = Some (Url_Value ''httpfoo/10.1'')"
    by (simp add: spec_eval run_eval)
  show ?thesis
  proof (intro conjI impI)
    assume "get_existing_notion_titles srv tok db st = Some (Inr ex, st1)"
      and "get_database_properties srv tok db st1 = (Inr types, st2)"
    then show "\<exists>st3. push_to_notion srv items tok db st = Some (Inr None, st3)
       \<and> map (\<lambda>call. request_doi (fst call)) (calls_since st2 st3) =
           map (\<lambda>it. if stripped_doi it = [] then None
                      else Some (encode_doi (doi_type_of types)
                             (if take 4 (stripped_doi it) = ''http'' then stripped_doi it
                              else ''https://doi.org/'' @ stripped_doi it)))
             (new_items ex items)"
      by (rule 0)
  qed (use 1 2 p 3 4 in simp_all)
qed

theorem doi_prefix_check_witness:
  "get_existing_notion_titles demo_remote ''secret'' ''db1'' init_run =
     Some (Inr {Some ''Paper A''},
           \<lparr>log = [''Found 1 existing titles in Notion.''],
            sent = [(Query_Database ''secret'' ''db1'' None, True)]\<rparr>)
   \<and> (\<exists>st3. push_to_notion demo_remote
          [\<lparr>title = ''T'', authors = [], date = Some [], doi = Some '' httpfoo/10.1 ''\<rparr>,
           \<lparr>title = ''Paper A'', authors = [], date = Some [], doi = Some ''10.5/a''\<rparr>,
           \<lparr>title = ''U'', authors = [], date = Some [], doi = Some ''HTTP://x.org/1''\<rparr>,
           \<lparr>title = ''V'', authors = [], date = Some [], doi = Some ''  ''\<rparr>]
          ''secret'' ''db1'' init_run = Some (Inr None, st3)
        \<and> map (\<lambda>call. request_doi (fst call))
            (calls_since
               \<lparr>log = [''Found 1 existing titles in Notion.''],
                sent = [(Query_Database ''secret'' ''db1'' None, True),
                        (Retrieve_Database ''secret'' ''db1'', True)]\<rparr> st3) =
            [Some (Url_Value ''httpfoo/10.1''),
             Some (Url_Value ''https://doi.org/HTTP://x.org/1''), None])
   \<and> stripped_doi \<lparr>title = ''T'', authors = [], date = Some [], doi = Some '' httpfoo/10.1 ''\<rparr>
     = ''httpfoo/10.1''
   \<and> take 4 ''httpfoo/10.1'' = ''http''
   \<and> map_of (page_properties ''rich_text''
        \<lparr>title = ''T'', authors = [], date = Some [], doi = Some '' httpfoo/10.1 ''\<rparr>) ''DOI''
        = Some (Rich_Text_Value ''httpfoo/10.1'')
   \<and> stripped_doi \<lparr>title = ''U'', authors = [], date = Some [], doi = Some ''HTTP://x.org/1''\<rparr>
     = ''HTTP://x.org/1''
   \<and> take 4 ''HTTP://x.org/1'' \<noteq> ''http''
   \<and> map_of (page_properties ''rich_text''
        \<lparr>title = ''U'', authors = [], date = Some [], doi = Some ''HTTP://x.org/1''\<rparr>) ''DOI''
        = Some (Rich_Text_Value ''https://doi.org/HTTP://x.org/1'')"
proof -
  let ?a = "\<lparr>title = ''T'', authors = [], date = Some [], doi = Some '' httpfoo/10.1 ''\<rparr>"
  let ?d = "\<lparr>title = ''Paper A'', authors = [], date = Some [], doi = Some ''10.5/a''\<rparr>"
  let ?b = "\<lparr>title = ''U'', authors = [], date = Some [], doi = Some ''HTTP://x.org/1''\<rparr>"
  let ?c = "\<lparr>title = ''V'', authors = [], date = Some [], doi = Some ''  ''\<rparr>"
  let ?st2 = "\<lparr>log = [''Found 1 existing titles in Notion.''],
       sent = [(Query_Database ''secret'' ''db1'' None, True),
               (Retrieve_Database ''secret'' ''db1'', True)]\<rparr>"
  have sa: "stripped_doi ?a = ''httpfoo/10.1''" and sb: "stripped_doi ?b = ''HTTP://x.org/1''"
    and sc: "stripped_doi ?c = []"
    by (simp_all add: stripped_doi_def py_strip_def py_isspace_def)
  have na: "stripped_doi ?a \<noteq> []" and nb: "stripped_doi ?b \<noteq> []"
    unfolding sa sb by simp_all
  have ta: "take 4 (stripped_doi ?a) = ''http''" and tb: "take 4 (stripped_doi ?b) \<noteq> ''http''"
    unfolding sa sb by simp_all
  have new: "new_items {Some ''Paper A''} [?a, ?d, ?b, ?c] = [?a, ?b, ?c]"
    by (simp add: new_items_def)
  have ty: "doi_type_of [''DOI'' \<mapsto> ''url''] = ''url''"
    by (simp add: doi_type_of_def)
  note inst = doi_prefix_check [of demo_remote "''secret''" "''db1''" init_run "{Some ''Paper A''}"
      _ "[''DOI'' \<mapsto> ''url'']" ?st2 "[?a, ?d, ?b, ?c]" ?a "''rich_text''" ?b]
  from inst [THEN conjunct1, THEN mp, OF demo_index, THEN mp, OF demo_schema]
  obtain st3 where r:
    "push_to_notion demo_remote [?a, ?d, ?b, ?c] ''secret'' ''db1'' init_run = Some (Inr None, st3)"
    "map (\<lambda>call. request_doi (fst call)) (calls_since ?st2 st3) =
           map (\<lambda>it. if stripped_doi it = [] then None
                      else Some (encode_doi (doi_type_of [''DOI'' \<mapsto> ''url''])
                             (if take 4 (stripped_doi it) = ''http'' then stripped_doi it
                              else ''https://doi.org/'' @ stripped_doi it)))
             (new_items {Some ''Paper A''} [?a, ?d, ?b, ?c])"
    by (elim exE conjE)
  from r(2) have c: "map (\<lambda>call. request_doi (fst call)) (calls_since ?st2 st3) =
            [Some (Url_Value ''httpfoo/10.1''),
             Some (Url_Value ''https://doi.org/HTTP://x.org/1''), None]"
    unfolding new ty by (simp add: sa sb sc encode_doi_def)
  from inst [THEN conjunct2, THEN conjunct1, THEN mp, OF na, THEN mp, OF ta]
  have a: "map_of (page_properties ''rich_text'' ?a) ''DOI'' = Some (Rich_Text_Value ''httpfoo/10.1'')"
    unfolding sa by (simp add: encode_doi_def)
  from inst [THEN conjunct2, THEN conjunct2, THEN conjunct1, THEN mp, OF nb, THEN mp, OF tb]
  have b: "map_of (page_properties ''rich_text'' ?b) ''DOI''
        = Some (Rich_Text_Value ''https://doi.org/HTTP://x.org/1'')"
    unfolding sb by (simp add: encode_doi_def)
  from ta tb have ta': "take 4 ''httpfoo/10.1'' = ''http''" and tb': "take 4 ''HTTP://x.org/1'' \<noteq> ''http''"
    unfolding sa sb by simp_all
  from demo_index r(1) c sa ta' a sb tb' b show ?thesis
    by (intro conjI exI [of _ st3])
qed

end
